theory Spec2Isabelle
  imports Complex_Main
begin

section \<open>The annotation-plotting cell of sm-bbox-annotation-plot.ipynb\<close>

text \<open>
  The notebook has one code cell (lines 42 to 93 of the .ipynb file). It lists the
  annotation files of an S3 prefix, and for each of them loads the JSON document, loads
  and decodes the image it names, draws one rectangle per bounding box and puts the
  result into a two-column matplotlib grid. The cell has no \<^verbatim>\<open>try\<close>: the first
  exception ends it.

  The embedding follows the cell statement by statement. A raised exception is a value
  that carries the line of the .ipynb file whose statement raised it. The libraries the
  cell calls (s3fs, json, os.path, numpy, OpenCV, matplotlib) are not part of the
  repository: each call is modelled by the library's documented behaviour at the
  arguments the cell passes, and what depends on the outside world (the bucket's
  contents, the JSON parser, the image decoder) is a field of the record \<open>env\<close>.
\<close>

subsection \<open>Python values and exceptions\<close>

text \<open>
  What \<^verbatim>\<open>json.loads\<close> returns: \<^verbatim>\<open>None\<close>, a bool, an int, a str, a list or a dict.
  A dict is an association list read with \<open>map_of\<close>. JSON numbers with a fraction or
  an exponent (Python floats) are not represented.
\<close>

datatype pyobj = PyNone | PyBool bool | PyInt int | PyStr string
  | PyList "pyobj list" | PyDict "(string \<times> pyobj) list"

datatype py_exc = NameError string | KeyError string | TypeError | IndexError
  | ValueError | JSONDecodeError | UnicodeDecodeError | RecursionError
  | FileNotFoundError string | CvError

text \<open>\<open>Raise e l\<close>: exception \<open>e\<close> left the statement at line \<open>l\<close> of the .ipynb file.\<close>

datatype failure = Raise py_exc nat

type_synonym bytes = string

text \<open>\<^verbatim>\<open>obj[key]\<close> with a str key: only a dict accepts it.\<close>

fun getitem :: "pyobj \<Rightarrow> string \<Rightarrow> py_exc + pyobj" where
  "getitem (PyDict kvs) k = (case map_of kvs k of None \<Rightarrow> Inl (KeyError k) | Some v \<Rightarrow> Inr v)"
| "getitem _ k = Inl TypeError"

text \<open>\<^verbatim>\<open>for bbox in obj\<close>: a list gives its items, a dict its keys, a str its characters.\<close>

fun py_iter :: "pyobj \<Rightarrow> py_exc + pyobj list" where
  "py_iter (PyList xs) = Inr xs"
| "py_iter (PyDict kvs) = Inr (map (\<lambda>kv. PyStr (fst kv)) kvs)"
| "py_iter (PyStr s) = Inr (map (\<lambda>c. PyStr [c]) s)"
| "py_iter _ = Inl TypeError"

text \<open>Python's bool is a subclass of int: \<^verbatim>\<open>True\<close> counts as 1 in arithmetic.\<close>

fun as_int :: "pyobj \<Rightarrow> int option" where
  "as_int (PyInt n) = Some n"
| "as_int (PyBool b) = Some (if b then 1 else 0)"
| "as_int _ = None"

fun py_add :: "pyobj \<Rightarrow> pyobj \<Rightarrow> py_exc + pyobj" where
  "py_add (PyStr a) (PyStr b) = Inr (PyStr (a @ b))"
| "py_add (PyList a) (PyList b) = Inr (PyList (a @ b))"
| "py_add a b = (case as_int a of None \<Rightarrow> Inl TypeError
     | Some m \<Rightarrow> (case as_int b of None \<Rightarrow> Inl TypeError | Some n \<Rightarrow> Inr (PyInt (m + n))))"

subsection \<open>The outside world\<close>

text \<open>An image header: what the decoder found, or what \<^verbatim>\<open>cv2.imdecode\<close> returns.
  Pixel values are not modelled.\<close>

record mat =
  rows :: nat
  cols :: nat
  channels :: nat
  depth :: nat

text \<open>
  \<open>json_loads\<close> is \<^verbatim>\<open>json.loads\<close>: the object it returns, or the exception it raises
  (JSONDecodeError on text that is not JSON, UnicodeDecodeError on bytes that are not
  UTF-8, RecursionError on nesting that is too deep).
\<close>

record env =
  s3_ls :: "string \<Rightarrow> string list option"
  s3_cat :: "string \<Rightarrow> bytes option"
  json_loads :: "bytes \<Rightarrow> py_exc + pyobj"
  decoder :: "bytes \<Rightarrow> mat option"

text \<open>Lines 51 and 52.\<close>

definition json_path :: string where
  "json_path = ''s3://bucket/dataset/train_annotation/''"

definition img_path :: string where
  "img_path = ''s3://bucket/dataset/train/''"

text \<open>
  The names the cell itself binds before line 70: its imports (lines 42 to 49) and its
  assignments and loop variables (lines 51 to 66). \<^verbatim>\<open>os\<close> is not among them, so
  line 70 finds it only if the kernel's namespace held it before the cell ran.
\<close>

definition cell_names :: "string list" where
  "cell_names = [''s3fs'', ''json'', ''plt'', ''np'', ''cv2'',
     ''json_path'', ''img_path'', ''fs'', ''json_files'', ''nrows'', ''ncols'',
     ''w'', ''h'', ''_'', ''ax'', ''i'', ''json_fname'', ''d'']"

definition name_bound :: "string set \<Rightarrow> string \<Rightarrow> bool" where
  "name_bound ns x = (x \<in> ns \<or> x \<in> set cell_names)"

text \<open>\<^verbatim>\<open>os.path.join(a, b)\<close> of posixpath, for two arguments.\<close>

definition os_path_join :: "string \<Rightarrow> pyobj \<Rightarrow> py_exc + string" where
  "os_path_join a b = (case b of
       PyStr p \<Rightarrow> Inr (if p \<noteq> [] \<and> hd p = CHR ''/'' then p
                       else if a = [] \<or> last a = CHR ''/'' then a @ p
                       else a @ ''/'' @ p)
     | _ \<Rightarrow> Inl TypeError)"

text \<open>
  \<^verbatim>\<open>cv2.imdecode(buf, flags)\<close>: an empty buffer raises \<^verbatim>\<open>cv2.error\<close>; data no decoder
  accepts gives \<^verbatim>\<open>None\<close> and raises nothing; otherwise the flags select depth and
  channels (bit 0 IMREAD_COLOR, bit 1 IMREAD_ANYDEPTH, bit 2 IMREAD_ANYCOLOR,
  bit 3 IMREAD_LOAD_GDAL, -1 IMREAD_UNCHANGED).
\<close>

definition imdecode :: "(bytes \<Rightarrow> mat option) \<Rightarrow> bytes \<Rightarrow> int \<Rightarrow> py_exc + mat option" where
  "imdecode dec buf flags =
     (if buf = [] then Inl CvError
      else Inr (case dec buf of
          None \<Rightarrow> None
        | Some src \<Rightarrow> Some
            (if bit flags 3 \<or> flags = - 1 then src
             else src\<lparr>channels := (if bit flags 0 \<or> (bit flags 2 \<and> 1 < channels src) then 3 else 1),
                      depth := (if bit flags 1 then depth src else 8)\<rparr>)))"

subsection \<open>Drawing the bounding boxes (lines 76 to 85)\<close>

text \<open>One \<^verbatim>\<open>cv2.rectangle\<close> call, with the arguments Python passed.\<close>

record rect =
  pt1 :: "int \<times> int"
  pt2 :: "int \<times> int"
  color :: "int list"
  thickness :: int

text \<open>The decoded image and the rectangles drawn on it so far, oldest first.\<close>

record image =
  pixels :: mat
  rects :: "rect list"

text \<open>OpenCV fills a shape when the thickness is negative (\<^verbatim>\<open>cv2.FILLED\<close> is -1) and
  strokes its outline otherwise.\<close>

definition filled :: "rect \<Rightarrow> bool" where
  "filled r = (thickness r < 0)"

text \<open>Lines 83 and 84: \<^verbatim>\<open>color = [0,0,0]; color[cid % 3] = 255\<close>. Python's \<^verbatim>\<open>%\<close> with a
  positive modulus is never negative, as \<open>mod\<close> on \<open>int\<close>.\<close>

definition color_of :: "int \<Rightarrow> int list" where
  "color_of cid = [0, 0, 0][nat (cid mod 3) := 255]"

definition bbox_color :: "pyobj \<Rightarrow> py_exc + int list" where
  "bbox_color cid = (case as_int cid of None \<Rightarrow> Inl TypeError | Some c \<Rightarrow> Inr (color_of c))"

text \<open>
  \<^verbatim>\<open>cv2.rectangle(img, pt1, pt2, color, thickness)\<close>. Each coordinate of the two corners
  must be a Python int, not a bool, that fits a signed 32-bit C int: otherwise the call
  raises \<^verbatim>\<open>cv2.error\<close>. With \<^verbatim>\<open>None\<close> in the place of the image the call draws nothing and
  raises nothing. The rasterisation is not modelled: the image records the call.
\<close>

definition fits_c_int :: "int \<Rightarrow> bool" where
  "fits_c_int n = (- (2 ^ 31) \<le> n \<and> n < 2 ^ 31)"

definition c_int :: "pyobj \<Rightarrow> int option" where
  "c_int v = (case v of PyInt n \<Rightarrow> (if fits_c_int n then Some n else None) | _ \<Rightarrow> None)"

definition rectangle ::
  "image option \<Rightarrow> pyobj \<times> pyobj \<Rightarrow> pyobj \<times> pyobj \<Rightarrow> int list \<Rightarrow> int \<Rightarrow> py_exc + image option" where
  "rectangle img p1 p2 col th =
     (case (c_int (fst p1), c_int (snd p1), c_int (fst p2), c_int (snd p2)) of
        (Some x1, Some y1, Some x2, Some y2) \<Rightarrow>
          Inr (map_option
                 (\<lambda>im. im\<lparr>rects := rects im @
                           [\<lparr>pt1 = (x1, y1), pt2 = (x2, y2), color = col, thickness = th\<rparr>]\<rparr>)
                 img)
      | _ \<Rightarrow> Inl CvError)"

text \<open>\<open>at_line l m k\<close>: the expression \<open>m\<close> of line \<open>l\<close> raises, or its value goes on to \<open>k\<close>.\<close>

definition at_line :: "nat \<Rightarrow> py_exc + 'a \<Rightarrow> ('a \<Rightarrow> failure + 'b) \<Rightarrow> failure + 'b" where
  "at_line l m k = (case m of Inl e \<Rightarrow> Inl (Raise e l) | Inr v \<Rightarrow> k v)"

text \<open>The body of the inner loop, lines 78 to 85.\<close>

definition draw_bbox :: "image option \<Rightarrow> pyobj \<Rightarrow> failure + image option" where
  "draw_bbox img bbox =
     at_line 78 (getitem bbox ''left'') (\<lambda>x_min.
     at_line 78 (getitem bbox ''top'') (\<lambda>y_min.
     at_line 79 (getitem bbox ''width'') (\<lambda>wd.
     at_line 79 (py_add x_min wd) (\<lambda>x_max.
     at_line 79 (getitem bbox ''height'') (\<lambda>ht.
     at_line 79 (py_add y_min ht) (\<lambda>y_max.
     at_line 82 (getitem bbox ''class_id'') (\<lambda>cid.
     at_line 84 (bbox_color cid) (\<lambda>col.
     at_line 85 (rectangle img (x_min, y_min) (x_max, y_max) col 2) (\<lambda>img'.
     Inr img')))))))))"

fun draw_bboxes :: "image option \<Rightarrow> pyobj list \<Rightarrow> failure + image option" where
  "draw_bboxes img [] = Inr img"
| "draw_bboxes img (b # bs) =
     (case draw_bbox img b of Inl f \<Rightarrow> Inl f | Inr img' \<Rightarrow> draw_bboxes img' bs)"

subsection \<open>The grid (lines 59 to 61 and 88 to 91)\<close>

record axes =
  title :: "string option"
  shown :: "image option"

definition blank :: axes where
  "blank = \<lparr>title = None, shown = None\<rparr>"

text \<open>
  What \<^verbatim>\<open>plt.subplots\<close> returns beside the figure, with its default \<^verbatim>\<open>squeeze=True\<close>:
  one Axes for a 1x1 grid, a one-dimensional array for a single row or a single column,
  a two-dimensional array otherwise. A grid with no row or no column is refused.
\<close>

datatype axarr = AxScalar axes | Ax1D "axes list" | Ax2D "axes list list"

definition subplots :: "nat \<Rightarrow> nat \<Rightarrow> py_exc + axarr" where
  "subplots nr nc =
     (if nr = 0 \<or> nc = 0 then Inl ValueError
      else if nr = 1 \<and> nc = 1 then Inr (AxScalar blank)
      else if nr = 1 then Inr (Ax1D (replicate nc blank))
      else if nc = 1 then Inr (Ax1D (replicate nr blank))
      else Inr (Ax2D (replicate nr (replicate nc blank))))"

text \<open>Line 59: \<^verbatim>\<open>nrows, ncols = (len(json_files)+1)//2, 2\<close>.\<close>

definition grid_shape :: "nat \<Rightarrow> nat \<times> nat" where
  "grid_shape n = ((n + 1) div 2, 2)"

text \<open>Line 88: \<^verbatim>\<open>row, col = i//2, i%2\<close>.\<close>

definition cell_of :: "nat \<Rightarrow> nat \<times> nat" where
  "cell_of i = (i div 2, i mod 2)"

text \<open>
  Line 89, \<^verbatim>\<open>ax[row][col]\<close>: two subscripts in a row. On a one-dimensional array the
  first gives an Axes object, which has no subscript.
\<close>

definition ax_cell :: "axarr \<Rightarrow> nat \<Rightarrow> nat \<Rightarrow> py_exc + axes" where
  "ax_cell a row col = (case a of
       AxScalar x \<Rightarrow> Inl TypeError
     | Ax1D xs \<Rightarrow> (if row < length xs then Inl TypeError else Inl IndexError)
     | Ax2D xss \<Rightarrow>
         (if row < length xss
          then (if col < length (xss ! row) then Inr (xss ! row ! col) else Inl IndexError)
          else Inl IndexError))"

text \<open>The Axes object at \<open>(row, col)\<close> is mutated in place: the array with that cell replaced.\<close>

definition ax_put :: "axarr \<Rightarrow> nat \<Rightarrow> nat \<Rightarrow> axes \<Rightarrow> axarr" where
  "ax_put a row col x = (case a of
       Ax2D xss \<Rightarrow> Ax2D (xss[row := (xss ! row)[col := x]])
     | _ \<Rightarrow> a)"

text \<open>Python's \<^verbatim>\<open>str(n)\<close> for \<open>n \<ge> 0\<close>, and the format \<^verbatim>\<open>{i:02}\<close>: zero-filled to width 2.\<close>

fun str_nat :: "nat \<Rightarrow> string" where
  "str_nat n = (if n < 10 then [''0123456789'' ! n]
                else str_nat (n div 10) @ [''0123456789'' ! (n mod 10)])"

declare str_nat.simps [simp del]

definition format_02 :: "nat \<Rightarrow> string" where
  "format_02 i = replicate (2 - length (str_nat i)) (CHR ''0'') @ str_nat i"

text \<open>Line 90: \<^verbatim>\<open>f'[img-{i:02}] {img_fname}'\<close>.\<close>

definition caption :: "nat \<Rightarrow> string \<Rightarrow> string" where
  "caption i img_fname = ''[img-'' @ format_02 i @ ''] '' @ img_fname"

text \<open>Lines 88 to 91. \<^verbatim>\<open>imshow(None)\<close> raises, after the title has been set.\<close>

definition add_to_plot :: "axarr \<Rightarrow> nat \<Rightarrow> string \<Rightarrow> image option \<Rightarrow> failure option \<times> axarr" where
  "add_to_plot a i img_fname img =
     (let row = fst (cell_of i); col = snd (cell_of i) in
      case ax_cell a row col of
        Inl e \<Rightarrow> (Some (Raise e 89), a)
      | Inr this_ax \<Rightarrow>
          (case img of
             None \<Rightarrow> (Some (Raise TypeError 91),
                       ax_put a row col (this_ax\<lparr>title := Some (caption i img_fname)\<rparr>))
           | Some im \<Rightarrow> (None,
                       ax_put a row col
                         (this_ax\<lparr>title := Some (caption i img_fname), shown := Some im\<rparr>))))"

subsection \<open>The loop over the annotation files (lines 64 to 91)\<close>

text \<open>\<open>cat_calls\<close>: every path handed to \<^verbatim>\<open>fs.cat\<close> so far, oldest first.\<close>

record state =
  cat_calls :: "string list"
  ax :: axarr

text \<open>
  Lines 66 to 73: the annotation document, the path of its image and the decoded image
  (\<open>None\<close> is Python's \<^verbatim>\<open>None\<close>). At line 70 the name \<^verbatim>\<open>os\<close> is looked up before the arguments of the call are
  evaluated.
\<close>

definition load_image ::
  "string set \<Rightarrow> env \<Rightarrow> string \<Rightarrow> state \<Rightarrow> (failure + pyobj \<times> string \<times> image option) \<times> state" where
  "load_image ns ev json_fname s0 =
     (let s1 = s0\<lparr>cat_calls := cat_calls s0 @ [json_fname]\<rparr> in
      case s3_cat ev json_fname of
        None \<Rightarrow> (Inl (Raise (FileNotFoundError json_fname) 66), s1)
      | Some raw \<Rightarrow>
     (case json_loads ev raw of
        Inl e \<Rightarrow> (Inl (Raise e 66), s1)
      | Inr d \<Rightarrow>
     (if \<not> name_bound ns ''os'' then (Inl (Raise (NameError ''os'') 70), s1)
      else
     (case getitem d ''file'' of
        Inl e \<Rightarrow> (Inl (Raise e 70), s1)
      | Inr f \<Rightarrow>
     (case os_path_join img_path f of
        Inl e \<Rightarrow> (Inl (Raise e 70), s1)
      | Inr img_fname \<Rightarrow>
     (let s2 = s1\<lparr>cat_calls := cat_calls s1 @ [img_fname]\<rparr> in
      case s3_cat ev img_fname of
        None \<Rightarrow> (Inl (Raise (FileNotFoundError img_fname) 71), s2)
      | Some b \<Rightarrow>
     (case imdecode (decoder ev) b 1 of
        Inl e \<Rightarrow> (Inl (Raise e 73), s2)
      | Inr m \<Rightarrow>
          (Inr (d, img_fname, map_option (\<lambda>h. \<lparr>pixels = h, rects = []\<rparr>) m), s2))))))))"

text \<open>Lines 76 to 85: \<^verbatim>\<open>for bbox in d['annotations']\<close> around the body \<open>draw_bbox\<close>.\<close>

definition draw_annotations :: "pyobj \<Rightarrow> image option \<Rightarrow> failure + image option" where
  "draw_annotations d img =
     at_line 76 (getitem d ''annotations'') (\<lambda>anns.
     at_line 76 (py_iter anns) (\<lambda>bboxes.
     draw_bboxes img bboxes))"

text \<open>One iteration of the outer loop. The result is \<open>None\<close> when it ran to its end.\<close>

definition process_file ::
  "string set \<Rightarrow> env \<Rightarrow> nat \<Rightarrow> string \<Rightarrow> state \<Rightarrow> failure option \<times> state" where
  "process_file ns ev i json_fname s0 =
     (case load_image ns ev json_fname s0 of
        (Inl fl, s2) \<Rightarrow> (Some fl, s2)
      | (Inr (d, img_fname, img), s2) \<Rightarrow>
          (case draw_annotations d img of
             Inl fl \<Rightarrow> (Some fl, s2)
           | Inr img' \<Rightarrow>
               (let r = add_to_plot (ax s2) i img_fname img' in
                (fst r, s2\<lparr>ax := snd r\<rparr>))))"

text \<open>\<^verbatim>\<open>for i, json_fname in enumerate(json_files)\<close>: the first failure ends the loop.\<close>

fun run_files ::
  "string set \<Rightarrow> env \<Rightarrow> nat \<Rightarrow> string list \<Rightarrow> state \<Rightarrow> failure option \<times> state" where
  "run_files ns ev i [] s = (None, s)"
| "run_files ns ev i (f # fs) s =
     (case process_file ns ev i f s of
        (Some fl, s') \<Rightarrow> (Some fl, s')
      | (None, s') \<Rightarrow> run_files ns ev (Suc i) fs s')"

text \<open>
  The whole cell. \<open>Inl\<close>: an exception before the loop. \<open>Inr (Some fl, s)\<close>: the loop was
  left by the failure \<open>fl\<close> in state \<open>s\<close>, and \<^verbatim>\<open>plt.show()\<close> was not reached.
  \<open>Inr (None, s)\<close>: \<^verbatim>\<open>plt.show()\<close> displays the grid \<open>ax s\<close>.
\<close>

definition run_cell :: "string set \<Rightarrow> env \<Rightarrow> failure + (failure option \<times> state)" where
  "run_cell ns ev =
     (case s3_ls ev json_path of
        None \<Rightarrow> Inl (Raise (FileNotFoundError json_path) 56)
      | Some json_files \<Rightarrow>
     (let nrows = fst (grid_shape (length json_files));
          ncols = snd (grid_shape (length json_files)) in
      case subplots nrows ncols of
        Inl e \<Rightarrow> Inl (Raise e 61)
      | Inr a \<Rightarrow> Inr (run_files ns ev 0 json_files \<lparr>cat_calls = [], ax = a\<rparr>)))"

subsection \<open>Vocabulary for the statements\<close>

text \<open>
  The error kinds of the specification (its section 7), read off the exception and the
  statement that raised it: a document that is not JSON or not text, or a subscript with
  a missing key, is a malformed annotation; a failed fetch of the image (line 71) is a missing
  image; an exception of the decode call (line 73) is a decode error. Any other failure
  has no kind of the specification.
\<close>

datatype spec_error = MalformedAnnotationError | ImageNotFoundError | ImageDecodeError

fun error_kind :: "failure \<Rightarrow> spec_error option" where
  "error_kind (Raise JSONDecodeError l) = Some MalformedAnnotationError"
| "error_kind (Raise UnicodeDecodeError l) = Some MalformedAnnotationError"
| "error_kind (Raise (KeyError k) l) = Some MalformedAnnotationError"
| "error_kind (Raise (FileNotFoundError p) l) = (if l = 71 then Some ImageNotFoundError else None)"
| "error_kind (Raise e l) = (if l = 73 then Some ImageDecodeError else None)"

text \<open>The integer a Python object holds under a key, if it holds one.\<close>

definition int_field :: "pyobj \<Rightarrow> string \<Rightarrow> int option" where
  "int_field obj k = (case getitem obj k of Inl e \<Rightarrow> None | Inr v \<Rightarrow> as_int v)"

text \<open>Decimal digits and the number a string of digits denotes.\<close>

definition is_digit :: "char \<Rightarrow> bool" where
  "is_digit c = (c \<in> set ''0123456789'')"

definition dec_value :: "string \<Rightarrow> nat" where
  "dec_value s = foldl (\<lambda>a c. 10 * a + (of_char c - 48)) 0 s"

text \<open>A two-dimensional array of \<open>nr\<close> rows of two Axes.\<close>

definition is_grid :: "nat \<Rightarrow> axarr \<Rightarrow> bool" where
  "is_grid nr a = (case a of
       Ax2D xss \<Rightarrow> length xss = nr \<and> list_all (\<lambda>row. length row = 2) xss
     | _ \<Rightarrow> False)"

text \<open>
  The path that line 70 gives the image of an annotation file: \<^verbatim>\<open>img_path\<close> joined with
  the \<^verbatim>\<open>file\<close> entry of the document that line 66 loads.
\<close>

definition resolved :: "env \<Rightarrow> string \<Rightarrow> string option" where
  "resolved ev json_fname =
     (case s3_cat ev json_fname of
        None \<Rightarrow> None
      | Some raw \<Rightarrow>
     (case json_loads ev raw of
        Inl e \<Rightarrow> None
      | Inr d \<Rightarrow>
     (case getitem d ''file'' of
        Inl e \<Rightarrow> None
      | Inr f \<Rightarrow>
     (case os_path_join img_path f of
        Inl e \<Rightarrow> None
      | Inr img_fname \<Rightarrow> Some img_fname))))"

text \<open>The cell of index \<open>k\<close> holds an image under the caption of index \<open>k\<close> and path \<open>p\<close>;
  the cell of index \<open>k\<close> is as \<^verbatim>\<open>plt.subplots\<close> made it.\<close>

definition cell_holds :: "axarr \<Rightarrow> nat \<Rightarrow> string \<Rightarrow> bool" where
  "cell_holds a k p = (case ax_cell a (fst (cell_of k)) (snd (cell_of k)) of
       Inl e \<Rightarrow> False
     | Inr x \<Rightarrow> title x = Some (caption k p) \<and> shown x \<noteq> None)"

definition cell_blank :: "axarr \<Rightarrow> nat \<Rightarrow> bool" where
  "cell_blank a k = (ax_cell a (fst (cell_of k)) (snd (cell_of k)) = Inr blank)"

subsection \<open>Example buckets\<close>

text \<open>A bucket, a parser and a decoder given by tables; the parser takes what is not in
  its table for text that is not JSON.\<close>

definition world ::
  "string list \<Rightarrow> (string \<times> bytes) list \<Rightarrow> (bytes \<times> pyobj) list \<Rightarrow> (bytes \<times> mat) list \<Rightarrow> env" where
  "world files store docs imgs =
     \<lparr>s3_ls = (\<lambda>p. if p = json_path then Some files else None),
      s3_cat = map_of store,
      json_loads = (\<lambda>b. case map_of docs b of None \<Rightarrow> Inl JSONDecodeError | Some d \<Rightarrow> Inr d),
      decoder = map_of imgs\<rparr>"

text \<open>The bounding box of the notebook's introduction, with class 4.\<close>

definition bbox4 :: pyobj where
  "bbox4 = PyDict [(''class_id'', PyInt 4), (''left'', PyInt 300), (''top'', PyInt 38),
                   (''width'', PyInt 100), (''height'', PyInt 52)]"

definition doc :: "string \<Rightarrow> pyobj list \<Rightarrow> pyobj" where
  "doc name boxes = PyDict [(''file'', PyStr name), (''annotations'', PyList boxes)]"

definition gray :: mat where
  "gray = \<lparr>rows = 4, cols = 6, channels = 1, depth = 8\<rparr>"

text \<open>Three well-formed annotation files, the first image grayscale with one box.\<close>

definition world3 :: env where
  "world3 = world [''a.json'', ''b.json'', ''c.json'']
     [(''a.json'', ''A''), (''b.json'', ''B''), (''c.json'', ''C''),
      (img_path @ ''a.jpg'', ''JA''), (img_path @ ''b.jpg'', ''JB''), (img_path @ ''c.jpg'', ''JC'')]
     [(''A'', doc ''a.jpg'' [bbox4]), (''B'', doc ''b.jpg'' []), (''C'', doc ''c.jpg'' [])]
     [(''JA'', gray), (''JB'', gray\<lparr>channels := 3\<rparr>), (''JC'', gray\<lparr>channels := 4\<rparr>)]"

text \<open>Five well-formed annotation files without boxes.\<close>

definition world5 :: env where
  "world5 = world [''a.json'', ''b.json'', ''c.json'', ''d.json'', ''e.json'']
     [(''a.json'', ''A''), (''b.json'', ''B''), (''c.json'', ''C''), (''d.json'', ''D''),
      (''e.json'', ''E''),
      (img_path @ ''a.jpg'', ''JA''), (img_path @ ''b.jpg'', ''JB''), (img_path @ ''c.jpg'', ''JC''),
      (img_path @ ''d.jpg'', ''JD''), (img_path @ ''e.jpg'', ''JE'')]
     [(''A'', doc ''a.jpg'' []), (''B'', doc ''b.jpg'' []), (''C'', doc ''c.jpg'' []),
      (''D'', doc ''d.jpg'' []), (''E'', doc ''e.jpg'' [])]
     [(''JA'', gray), (''JB'', gray), (''JC'', gray), (''JD'', gray), (''JE'', gray)]"

text \<open>One well-formed annotation file.\<close>

definition world1 :: env where
  "world1 = world [''a.json''] [(''a.json'', ''A''), (img_path @ ''a.jpg'', ''JA'')]
     [(''A'', doc ''a.jpg'' [bbox4])] [(''JA'', gray)]"

text \<open>One annotation file that is not JSON.\<close>

definition world_bad_json :: env where
  "world_bad_json = world [''a.json''] [(''a.json'', ''{'')] [] []"

text \<open>One annotation file of one byte that is not UTF-8.\<close>

definition world_not_utf8 :: env where
  "world_not_utf8 = (world [''a.json''] [(''a.json'', [CHR 0xFF])] [] [])
     \<lparr>json_loads := (\<lambda>b. if b = [CHR 0xFF] then Inl UnicodeDecodeError else Inl JSONDecodeError)\<rparr>"

text \<open>One annotation file without the key \<^verbatim>\<open>annotations\<close>; its image is there.\<close>

definition world_no_annotations :: env where
  "world_no_annotations = world [''a.json''] [(''a.json'', ''A''), (img_path @ ''a.jpg'', ''JA'')]
     [(''A'', PyDict [(''file'', PyStr ''a.jpg'')])] [(''JA'', gray)]"

text \<open>One annotation file without the key \<^verbatim>\<open>file\<close>.\<close>

definition world_no_file :: env where
  "world_no_file = world [''a.json''] [(''a.json'', ''A'')]
     [(''A'', PyDict [(''annotations'', PyList [])])] []"

text \<open>One annotation file whose image is not in the bucket.\<close>

definition world_missing :: env where
  "world_missing = world [''a.json''] [(''a.json'', ''A'')]
     [(''A'', doc ''missing.jpg'' [bbox4])] []"

text \<open>Three annotation files; the image of the second is not in the bucket.\<close>

definition world_second_missing :: env where
  "world_second_missing = world [''a.json'', ''b.json'', ''c.json'']
     [(''a.json'', ''A''), (''b.json'', ''B''), (''c.json'', ''C''),
      (img_path @ ''a.jpg'', ''JA''), (img_path @ ''c.jpg'', ''JC'')]
     [(''A'', doc ''a.jpg'' []), (''B'', doc ''missing.jpg'' []), (''C'', doc ''c.jpg'' [])]
     [(''JA'', gray), (''JC'', gray)]"

text \<open>Three annotation files without boxes; the image of the first is two bytes that no
  decoder accepts.\<close>

definition world_garbage_no_boxes :: env where
  "world_garbage_no_boxes = world [''a.json'', ''b.json'', ''c.json'']
     [(''a.json'', ''A''), (''b.json'', ''B''), (''c.json'', ''C''),
      (img_path @ ''a.jpg'', ''xx''), (img_path @ ''b.jpg'', ''JB''), (img_path @ ''c.jpg'', ''JC'')]
     [(''A'', doc ''a.jpg'' []), (''B'', doc ''b.jpg'' []), (''C'', doc ''c.jpg'' [])]
     [(''JB'', gray), (''JC'', gray)]"

text \<open>Three annotation files; the first has one box and an image of two bytes that no
  decoder accepts.\<close>

definition world_garbage_box :: env where
  "world_garbage_box = world [''a.json'', ''b.json'', ''c.json'']
     [(''a.json'', ''A''), (''b.json'', ''B''), (''c.json'', ''C''),
      (img_path @ ''a.jpg'', ''xx''), (img_path @ ''b.jpg'', ''JB''), (img_path @ ''c.jpg'', ''JC'')]
     [(''A'', doc ''a.jpg'' [bbox4]), (''B'', doc ''b.jpg'' []), (''C'', doc ''c.jpg'' [])]
     [(''JB'', gray), (''JC'', gray)]"

text \<open>A box whose left edge is \<open>2 ^ 31\<close>.\<close>

definition bbox_far :: pyobj where
  "bbox_far = PyDict [(''class_id'', PyInt 0), (''left'', PyInt 2147483648), (''top'', PyInt 0),
                      (''width'', PyInt 10), (''height'', PyInt 10)]"

text \<open>One annotation file whose image is an object of no bytes.\<close>

definition world_empty_image :: env where
  "world_empty_image = world [''a.json''] [(''a.json'', ''A''), (img_path @ ''a.jpg'', [])]
     [(''A'', doc ''a.jpg'' [bbox4])] []"

text \<open>One annotation file whose image is two bytes that no decoder accepts.\<close>

definition world_garbage :: env where
  "world_garbage = world [''a.json''] [(''a.json'', ''A''), (img_path @ ''a.jpg'', ''xx'')]
     [(''A'', doc ''a.jpg'' [bbox4])] []"

section \<open>Properties\<close>

subsection \<open>Names, colours and rectangles\<close>

lemma name_bound_os: "name_bound ns ''os'' = (''os'' \<in> ns)"
  by (simp add: name_bound_def cell_names_def)

lemma color_of_cases:
  "color_of c = (if c mod 3 = 0 then [255, 0, 0] else if c mod 3 = 1 then [0, 255, 0] else [0, 0, 255])"
proof -
  have "c mod 3 = 0 \<or> c mod 3 = 1 \<or> c mod 3 = 2" by presburger
  then show ?thesis by (auto simp: color_of_def)
qed

lemma color_of_period: "color_of (c + 3) = color_of c"
  by (simp add: color_of_def)

lemma py_add_as_int:
  "as_int a = Some m \<Longrightarrow> as_int b = Some n \<Longrightarrow> py_add a b = Inr (PyInt (m + n))"
  by (cases a; cases b) auto

lemma py_add_Inr_as_int:
  "py_add a b = Inr v \<Longrightarrow> as_int a = Some m \<Longrightarrow> \<exists>n. as_int b = Some n \<and> v = PyInt (m + n)"
  by (cases a; cases b) (auto split: option.splits if_splits)

lemma int_field_PyInt: "getitem obj k = Inr (PyInt n) \<Longrightarrow> int_field obj k = Some n"
  by (simp add: int_field_def)

lemma c_int_PyInt: "fits_c_int n \<Longrightarrow> c_int (PyInt n) = Some n"
  by (simp add: c_int_def)

lemma c_int_Some: "c_int v = Some n \<Longrightarrow> v = PyInt n \<and> fits_c_int n"
  by (cases v) (auto simp: c_int_def split: if_splits)

lemma rectangle_ok:
  "fits_c_int x1 \<Longrightarrow> fits_c_int y1 \<Longrightarrow> fits_c_int x2 \<Longrightarrow> fits_c_int y2 \<Longrightarrow>
   rectangle img (PyInt x1, PyInt y1) (PyInt x2, PyInt y2) col th =
     Inr (map_option
            (\<lambda>im. im\<lparr>rects := rects im @
                      [\<lparr>pt1 = (x1, y1), pt2 = (x2, y2), color = col, thickness = th\<rparr>]\<rparr>)
            img)"
  by (simp add: rectangle_def c_int_PyInt)

lemma rectangle_Inr:
  assumes "rectangle img (a, b) (c, d) col th = Inr r"
  shows "\<exists>x1 y1 x2 y2. a = PyInt x1 \<and> b = PyInt y1 \<and> c = PyInt x2 \<and> d = PyInt y2
     \<and> fits_c_int x1 \<and> fits_c_int y1 \<and> fits_c_int x2 \<and> fits_c_int y2
     \<and> r = map_option
            (\<lambda>im. im\<lparr>rects := rects im @
                      [\<lparr>pt1 = (x1, y1), pt2 = (x2, y2), color = col, thickness = th\<rparr>]\<rparr>)
            img"
  using assms
  by (auto simp: rectangle_def split: option.splits dest!: c_int_Some)

lemma rectangle_out_of_range:
  "\<not> (fits_c_int x1 \<and> fits_c_int y1 \<and> fits_c_int x2 \<and> fits_c_int y2) \<Longrightarrow>
   rectangle img (PyInt x1, PyInt y1) (PyInt x2, PyInt y2) col th = Inl CvError"
  by (auto simp: rectangle_def c_int_def split: option.splits)

lemma draw_bbox_fields:
  assumes "getitem bbox ''left'' = Inr (PyInt l)" "getitem bbox ''top'' = Inr (PyInt t)"
    "int_field bbox ''width'' = Some w" "int_field bbox ''height'' = Some h"
    "int_field bbox ''class_id'' = Some c"
  shows "draw_bbox img bbox =
     at_line 85 (rectangle img (PyInt l, PyInt t) (PyInt (l + w), PyInt (t + h)) (color_of c) 2)
       (\<lambda>img'. Inr img')"
  using assms
  by (auto simp: draw_bbox_def at_line_def [of 78] at_line_def [of 79] at_line_def [of 82]
      at_line_def [of 84] int_field_def bbox_color_def py_add_as_int
      split: sum.splits option.splits)

lemma draw_bbox_ok:
  assumes "getitem bbox ''left'' = Inr (PyInt l)" "getitem bbox ''top'' = Inr (PyInt t)"
    "int_field bbox ''width'' = Some w" "int_field bbox ''height'' = Some h"
    "int_field bbox ''class_id'' = Some c"
    "fits_c_int l" "fits_c_int t" "fits_c_int (l + w)" "fits_c_int (t + h)"
  shows "draw_bbox img bbox = Inr (map_option
            (\<lambda>im. im\<lparr>rects := rects im @
               [\<lparr>pt1 = (l, t), pt2 = (l + w, t + h), color = color_of c, thickness = 2\<rparr>]\<rparr>)
            img)"
  by (simp add: draw_bbox_fields [OF assms(1-5)] rectangle_ok [OF assms(6-9)] at_line_def)

lemma draw_bbox_out_of_range:
  assumes "getitem bbox ''left'' = Inr (PyInt l)" "getitem bbox ''top'' = Inr (PyInt t)"
    "int_field bbox ''width'' = Some w" "int_field bbox ''height'' = Some h"
    "int_field bbox ''class_id'' = Some c"
    "\<not> (fits_c_int l \<and> fits_c_int t \<and> fits_c_int (l + w) \<and> fits_c_int (t + h))"
  shows "draw_bbox img bbox = Inl (Raise CvError 85)"
  by (simp add: draw_bbox_fields [OF assms(1-5)] rectangle_out_of_range [OF assms(6)] at_line_def)

lemma draw_bbox_Inr:
  assumes "draw_bbox img bbox = Inr r"
  shows "\<exists>l t w h c. getitem bbox ''left'' = Inr (PyInt l) \<and> getitem bbox ''top'' = Inr (PyInt t)
     \<and> int_field bbox ''width'' = Some w \<and> int_field bbox ''height'' = Some h
     \<and> int_field bbox ''class_id'' = Some c
     \<and> fits_c_int l \<and> fits_c_int t \<and> fits_c_int (l + w) \<and> fits_c_int (t + h)
     \<and> r = map_option
            (\<lambda>im. im\<lparr>rects := rects im @
               [\<lparr>pt1 = (l, t), pt2 = (l + w, t + h), color = color_of c, thickness = 2\<rparr>]\<rparr>)
            img"
proof -
  from assms obtain x_min y_min wd ht x_max y_max cid col where
    g: "getitem bbox ''left'' = Inr x_min" "getitem bbox ''top'' = Inr y_min"
      "getitem bbox ''width'' = Inr wd" "getitem bbox ''height'' = Inr ht"
      "getitem bbox ''class_id'' = Inr cid"
    and a: "py_add x_min wd = Inr x_max" "py_add y_min ht = Inr y_max"
    and c: "bbox_color cid = Inr col"
    and r: "rectangle img (x_min, y_min) (x_max, y_max) col 2 = Inr r"
    by (auto simp: draw_bbox_def at_line_def split: sum.splits)
  from rectangle_Inr [OF r] obtain l t x2 y2 where
    p: "x_min = PyInt l" "y_min = PyInt t" "x_max = PyInt x2" "y_max = PyInt y2"
    and f: "fits_c_int l" "fits_c_int t" "fits_c_int x2" "fits_c_int y2"
    and r': "r = map_option
            (\<lambda>im. im\<lparr>rects := rects im @
               [\<lparr>pt1 = (l, t), pt2 = (x2, y2), color = col, thickness = 2\<rparr>]\<rparr>)
            img"
    by blast
  from py_add_Inr_as_int [OF a(1), of l] p obtain w where w: "as_int wd = Some w" "x2 = l + w"
    by auto
  from py_add_Inr_as_int [OF a(2), of t] p obtain h where h: "as_int ht = Some h" "y2 = t + h"
    by auto
  from c obtain cc where cc: "as_int cid = Some cc" "col = color_of cc"
    by (auto simp: bbox_color_def split: option.splits)
  show ?thesis
    using g p f r' w h cc by (auto simp: int_field_def)
qed

lemma draw_bbox_Inl: "draw_bbox img bbox = Inl fl \<Longrightarrow> \<exists>e l. fl = Raise e l \<and> 78 \<le> l \<and> l \<le> 85"
  by (auto simp: draw_bbox_def at_line_def split: sum.splits)

lemma draw_bboxes_Inl: "draw_bboxes img bs = Inl fl \<Longrightarrow> \<exists>e l. fl = Raise e l \<and> 78 \<le> l \<and> l \<le> 85"
proof (induction bs arbitrary: img)
  case Nil
  then show ?case by simp
next
  case (Cons b bs)
  then show ?case by (auto split: sum.splits dest: draw_bbox_Inl)
qed

lemma draw_bboxes_None: "draw_bboxes None bs = Inr r \<Longrightarrow> r = None"
proof (induction bs)
  case Nil
  then show ?case by simp
next
  case (Cons b bs)
  then show ?case by (auto split: sum.splits dest!: draw_bbox_Inr)
qed

lemma draw_annotations_Inl:
  "draw_annotations d img = Inl fl \<Longrightarrow> \<exists>e l. fl = Raise e l \<and> 76 \<le> l \<and> l \<le> 85"
  by (auto simp: draw_annotations_def at_line_def split: sum.splits dest!: draw_bboxes_Inl)

lemma draw_annotations_None: "draw_annotations d None = Inr r \<Longrightarrow> r = None"
  by (auto simp: draw_annotations_def at_line_def split: sum.splits dest!: draw_bboxes_None)

lemma error_kind_decode: "error_kind (Raise e l) = Some ImageDecodeError \<Longrightarrow> l = 73"
  by (cases e) (auto split: if_splits)

text \<open>
  C1. The colour of a box is \<^verbatim>\<open>[0,0,0]\<close> with the channel of index \<open>classId mod 3\<close> set to
  255: classes 0, 3, 6, ... light the first channel, 1, 4, 7, ... the second and
  2, 5, 8, ... the third, so classes \<open>c\<close> and \<open>c + 3\<close> get the same colour. Every
  rectangle that \<open>draw_bbox\<close> draws has the colour of its box's class.
\<close>

theorem color_round_robin:
  "color_of c = (if c mod 3 = 0 then [255, 0, 0]
                 else if c mod 3 = 1 then [0, 255, 0] else [0, 0, 255])
   \<and> color_of c ! nat (c mod 3) = 255
   \<and> color_of (c + 3) = color_of c
   \<and> (\<forall>img bbox im'. draw_bbox img bbox = Inr (Some im') \<and> getitem bbox ''class_id'' = Inr (PyInt c)
         \<longrightarrow> color (last (rects im')) = color_of c)"
proof -
  have m: "c mod 3 = 0 \<or> c mod 3 = 1 \<or> c mod 3 = 2" by presburger
  have 1: "color_of c ! nat (c mod 3) = 255"
    using m by (auto simp: color_of_def)
  have 2: "color (last (rects im')) = color_of c"
    if "draw_bbox img bbox = Inr (Some im')" "getitem bbox ''class_id'' = Inr (PyInt c)"
    for img bbox im'
    using draw_bbox_Inr [OF that(1)] int_field_PyInt [OF that(2)] by (cases img) auto
  from 1 2 show ?thesis using color_of_cases color_of_period by blast
qed

theorem color_round_robin_witness:
  "color_of 7 = [0, 255, 0] \<and> color_of 4 = color_of 7
   \<and> draw_bbox (Some \<lparr>pixels = gray, rects = []\<rparr>) bbox4
       = Inr (Some \<lparr>pixels = gray, rects = [\<lparr>pt1 = (300, 38), pt2 = (400, 90),
                                           color = [0, 255, 0], thickness = 2\<rparr>]\<rparr>)
   \<and> color (last (rects \<lparr>pixels = gray, rects = [\<lparr>pt1 = (300, 38), pt2 = (400, 90),
                                           color = [0, 255, 0], thickness = 2\<rparr>]\<rparr>)) = color_of 4"
proof -
  have d: "draw_bbox (Some \<lparr>pixels = gray, rects = []\<rparr>) bbox4
       = Inr (Some \<lparr>pixels = gray, rects = [\<lparr>pt1 = (300, 38), pt2 = (400, 90),
                                           color = [0, 255, 0], thickness = 2\<rparr>]\<rparr>)"
    by (simp add: draw_bbox_def at_line_def bbox4_def bbox_color_def rectangle_def color_of_def
        c_int_def fits_c_int_def)
  have g: "getitem bbox4 ''class_id'' = Inr (PyInt 4)" by (simp add: bbox4_def)
  from color_round_robin [of 4] d g
  have "color (last (rects \<lparr>pixels = gray, rects = [\<lparr>pt1 = (300, 38), pt2 = (400, 90),
                                           color = [0, 255, 0], thickness = 2\<rparr>]\<rparr>)) = color_of 4"
    by blast
  moreover have "color_of 7 = [0, 255, 0]" using color_round_robin [of 7] by simp
  moreover have "color_of 4 = color_of 7" using color_round_robin [of 4] by simp
  ultimately show ?thesis using d by blast
qed

text \<open>
  C6, as the cell has it. For a box with integer \<open>left\<close>, \<open>top\<close>, \<open>width\<close>, \<open>height\<close> (and an
  integer class): when the corners \<open>(left, top)\<close> and \<open>(left + width, top + height)\<close> fit
  signed 32-bit C integers, \<open>draw_bbox\<close> adds one rectangle to the image, from the one
  corner to the other, of thickness 2, not filled; when a coordinate of a corner does not
  fit, \<^verbatim>\<open>cv2.rectangle\<close> raises at line 85 and nothing is drawn.
\<close>

theorem bbox_rectangle:
  assumes "getitem bbox ''left'' = Inr (PyInt l)" and "getitem bbox ''top'' = Inr (PyInt t)"
    and "getitem bbox ''width'' = Inr (PyInt w)" and "getitem bbox ''height'' = Inr (PyInt h)"
    and "getitem bbox ''class_id'' = Inr (PyInt c)"
  shows "(fits_c_int l \<and> fits_c_int t \<and> fits_c_int (l + w) \<and> fits_c_int (t + h)
          \<longrightarrow> (\<exists>r. draw_bbox (Some im) bbox = Inr (Some (im\<lparr>rects := rects im @ [r]\<rparr>))
                 \<and> pt1 r = (l, t) \<and> pt2 r = (l + w, t + h) \<and> thickness r = 2 \<and> \<not> filled r))
     \<and> (\<not> (fits_c_int l \<and> fits_c_int t \<and> fits_c_int (l + w) \<and> fits_c_int (t + h))
          \<longrightarrow> draw_bbox (Some im) bbox = Inl (Raise CvError 85))"
proof -
  let ?r = "\<lparr>pt1 = (l, t), pt2 = (l + w, t + h), color = color_of c, thickness = 2\<rparr>"
  note f = assms(1,2) int_field_PyInt [OF assms(3)] int_field_PyInt [OF assms(4)]
    int_field_PyInt [OF assms(5)]
  have 1: "\<exists>r. draw_bbox (Some im) bbox = Inr (Some (im\<lparr>rects := rects im @ [r]\<rparr>))
                 \<and> pt1 r = (l, t) \<and> pt2 r = (l + w, t + h) \<and> thickness r = 2 \<and> \<not> filled r"
    if "fits_c_int l \<and> fits_c_int t \<and> fits_c_int (l + w) \<and> fits_c_int (t + h)"
  proof -
    have "draw_bbox (Some im) bbox = Inr (Some (im\<lparr>rects := rects im @ [?r]\<rparr>))"
      using draw_bbox_ok [OF f, of "Some im"] that by simp
    moreover have "\<not> filled ?r" by (simp add: filled_def)
    ultimately show ?thesis by (intro exI [of _ ?r]) simp
  qed
  have 2: "draw_bbox (Some im) bbox = Inl (Raise CvError 85)"
    if "\<not> (fits_c_int l \<and> fits_c_int t \<and> fits_c_int (l + w) \<and> fits_c_int (t + h))"
    using draw_bbox_out_of_range [OF f that] .
  from 1 2 show ?thesis by blast
qed

theorem bbox_rectangle_witness:
  "fits_c_int 300 \<and> fits_c_int 38 \<and> fits_c_int (300 + 100) \<and> fits_c_int (38 + 52)
   \<and> (\<exists>r. draw_bbox (Some \<lparr>pixels = gray, rects = []\<rparr>) bbox4
        = Inr (Some (\<lparr>pixels = gray, rects = []\<rparr>\<lparr>rects := rects \<lparr>pixels = gray, rects = []\<rparr> @ [r]\<rparr>))
     \<and> pt1 r = (300, 38) \<and> pt2 r = (300 + 100, 38 + 52) \<and> thickness r = 2 \<and> \<not> filled r)
   \<and> \<not> fits_c_int 2147483648
   \<and> draw_bbox (Some \<lparr>pixels = gray, rects = []\<rparr>) bbox_far = Inl (Raise CvError 85)"
proof -
  have a: "getitem bbox4 ''left'' = Inr (PyInt 300)" "getitem bbox4 ''top'' = Inr (PyInt 38)"
    "getitem bbox4 ''width'' = Inr (PyInt 100)" "getitem bbox4 ''height'' = Inr (PyInt 52)"
    "getitem bbox4 ''class_id'' = Inr (PyInt 4)"
    by (simp_all add: bbox4_def)
  have b: "getitem bbox_far ''left'' = Inr (PyInt 2147483648)" "getitem bbox_far ''top'' = Inr (PyInt 0)"
    "getitem bbox_far ''width'' = Inr (PyInt 10)" "getitem bbox_far ''height'' = Inr (PyInt 10)"
    "getitem bbox_far ''class_id'' = Inr (PyInt 0)"
    by (simp_all add: bbox_far_def)
  have f: "fits_c_int 300 \<and> fits_c_int 38 \<and> fits_c_int (300 + 100) \<and> fits_c_int (38 + 52)"
    by (simp add: fits_c_int_def)
  have n: "\<not> fits_c_int 2147483648" by (simp add: fits_c_int_def)
  from bbox_rectangle [OF a, of "\<lparr>pixels = gray, rects = []\<rparr>"] f
  have 1: "\<exists>r. draw_bbox (Some \<lparr>pixels = gray, rects = []\<rparr>) bbox4
        = Inr (Some (\<lparr>pixels = gray, rects = []\<rparr>\<lparr>rects := rects \<lparr>pixels = gray, rects = []\<rparr> @ [r]\<rparr>))
     \<and> pt1 r = (300, 38) \<and> pt2 r = (300 + 100, 38 + 52) \<and> thickness r = 2 \<and> \<not> filled r"
    by blast
  from bbox_rectangle [OF b, of "\<lparr>pixels = gray, rects = []\<rparr>"] n
  have 2: "draw_bbox (Some \<lparr>pixels = gray, rects = []\<rparr>) bbox_far = Inl (Raise CvError 85)"
    by blast
  from f 1 n 2 show ?thesis by blast
qed

theorem bbox_rectangle_counterexample:
  "getitem bbox_far ''left'' = Inr (PyInt (2 ^ 31)) \<and> getitem bbox_far ''top'' = Inr (PyInt 0)
   \<and> getitem bbox_far ''width'' = Inr (PyInt 10) \<and> getitem bbox_far ''height'' = Inr (PyInt 10)
   \<and> draw_bbox (Some \<lparr>pixels = gray, rects = []\<rparr>) bbox_far = Inl (Raise CvError 85)"
  by (simp add: draw_bbox_def at_line_def bbox_far_def bbox_color_def rectangle_def color_of_def
      c_int_def fits_c_int_def)

text \<open>
  C8. Whatever the channels of the source image (one for grayscale, three for colour,
  four with alpha), \<^verbatim>\<open>cv2.imdecode(arr, 1)\<close> gives it three channels of 8 bits, and every
  image that lines 66 to 73 hand on has three channels.
\<close>

theorem decode_three_channels:
  "(buf \<noteq> [] \<and> dec buf = Some src
      \<longrightarrow> imdecode dec buf 1 = Inr (Some (src\<lparr>channels := 3, depth := 8\<rparr>)))
   \<and> (load_image ns ev f s = (Inr (d, p, Some im), s')
      \<longrightarrow> channels (pixels im) = 3 \<and> depth (pixels im) = 8 \<and> rects im = [])"
proof -
  have 1: "imdecode dec' buf' 1 = Inr (Some (src'\<lparr>channels := 3, depth := 8\<rparr>))"
    if "buf' \<noteq> []" "dec' buf' = Some src'" for dec' buf' src'
    using that by (simp add: imdecode_def)
  have 2: "channels (pixels im) = 3 \<and> depth (pixels im) = 8 \<and> rects im = []"
    if "load_image ns ev f s = (Inr (d, p, Some im), s')"
    using that
    by (auto simp: load_image_def Let_def imdecode_def
        split: option.splits sum.splits if_splits)
  from 1 2 show ?thesis by blast
qed

theorem decode_three_channels_witness:
  "imdecode (decoder world3) ''JA'' 1 = Inr (Some (gray\<lparr>channels := 3, depth := 8\<rparr>))
   \<and> channels gray = 1
   \<and> load_image {''os''} world3 ''a.json'' \<lparr>cat_calls = [], ax = Ax1D []\<rparr>
       = (Inr (doc ''a.jpg'' [bbox4], img_path @ ''a.jpg'',
               Some \<lparr>pixels = gray\<lparr>channels := 3, depth := 8\<rparr>, rects = []\<rparr>),
          \<lparr>cat_calls = [''a.json'', img_path @ ''a.jpg''], ax = Ax1D []\<rparr>)
   \<and> channels (pixels \<lparr>pixels = gray\<lparr>channels := 3, depth := 8\<rparr>, rects = []\<rparr>) = 3"
proof -
  have l: "load_image {''os''} world3 ''a.json'' \<lparr>cat_calls = [], ax = Ax1D []\<rparr>
       = (Inr (doc ''a.jpg'' [bbox4], img_path @ ''a.jpg'',
               Some \<lparr>pixels = gray\<lparr>channels := 3, depth := 8\<rparr>, rects = []\<rparr>),
          \<lparr>cat_calls = [''a.json'', img_path @ ''a.jpg''], ax = Ax1D []\<rparr>)"
    by (simp add: load_image_def world3_def world_def name_bound_os doc_def img_path_def
        os_path_join_def imdecode_def gray_def)
  have g: "decoder world3 ''JA'' = Some gray" "''JA'' \<noteq> []"
    by (simp_all add: world3_def world_def)
  from decode_three_channels [of "''JA''" "decoder world3" gray] g
  have "imdecode (decoder world3) ''JA'' 1 = Inr (Some (gray\<lparr>channels := 3, depth := 8\<rparr>))"
    by blast
  moreover from decode_three_channels [of _ _ _ "{''os''}" world3 "''a.json''"
      "\<lparr>cat_calls = [], ax = Ax1D []\<rparr>" "doc ''a.jpg'' [bbox4]" "img_path @ ''a.jpg''"
      "\<lparr>pixels = gray\<lparr>channels := 3, depth := 8\<rparr>, rects = []\<rparr>"] l
  have "channels (pixels \<lparr>pixels = gray\<lparr>channels := 3, depth := 8\<rparr>, rects = []\<rparr>) = 3"
    by blast
  moreover have "channels gray = 1" by (simp add: gray_def)
  ultimately show ?thesis using l by blast
qed

subsection \<open>The caption\<close>

lemma digit_cases:
  "d < 10 \<Longrightarrow> d = 0 \<or> d = 1 \<or> d = 2 \<or> d = 3 \<or> d = 4 \<or> d = 5 \<or> d = 6 \<or> d = 7 \<or> d = 8 \<or> d = (9::nat)"
  by arith

lemma digit_value:
  assumes "d < 10"
  shows "of_char (''0123456789'' ! d) = (48 + d :: nat)"
  using digit_cases [OF assms] by (elim disjE) simp_all

lemma digit_is_digit:
  assumes "d < 10"
  shows "is_digit (''0123456789'' ! d)"
  using digit_cases [OF assms] by (elim disjE) (simp_all add: is_digit_def)

lemma digit_zero:
  assumes "d < 10"
  shows "(''0123456789'' ! d = CHR ''0'') = (d = 0)"
  using digit_cases [OF assms] by (elim disjE) simp_all

lemma dec_value_snoc: "dec_value (s @ [c]) = 10 * dec_value s + (of_char c - 48)"
  by (simp add: dec_value_def)

lemma str_nat_small: "n < 10 \<Longrightarrow> str_nat n = [''0123456789'' ! n]"
  by (subst str_nat.simps) simp

lemma str_nat_nonempty: "str_nat n \<noteq> []"
  by (subst str_nat.simps) simp

lemma str_nat_value: "dec_value (str_nat n) = n"
proof (induction n rule: str_nat.induct)
  case (1 n)
  show ?case
  proof (cases "n < 10")
    case True
    then show ?thesis
      by (subst str_nat.simps) (simp add: dec_value_def digit_value)
  next
    case False
    with 1 have "dec_value (str_nat (n div 10)) = n div 10" by simp
    with False show ?thesis
      by (subst str_nat.simps) (simp add: dec_value_snoc digit_value)
  qed
qed

lemma str_nat_digits: "\<forall>c \<in> set (str_nat n). is_digit c"
proof (induction n rule: str_nat.induct)
  case (1 n)
  show ?case
  proof (cases "n < 10")
    case True
    then show ?thesis by (subst str_nat.simps) (simp add: digit_is_digit)
  next
    case False
    with 1 show ?thesis by (subst str_nat.simps) (simp add: digit_is_digit)
  qed
qed

lemma str_nat_hd: "0 < n \<Longrightarrow> hd (str_nat n) \<noteq> CHR ''0''"
proof (induction n rule: str_nat.induct)
  case (1 n)
  show ?case
  proof (cases "n < 10")
    case True
    with 1(2) have "''0123456789'' ! n \<noteq> CHR ''0''" using digit_zero [of n] by blast
    moreover have "hd (str_nat n) = ''0123456789'' ! n" using True by (simp add: str_nat_small)
    ultimately show ?thesis by metis
  next
    case False
    then have "0 < n div 10" by simp
    with 1 False have "hd (str_nat (n div 10)) \<noteq> CHR ''0''" by simp
    with False show ?thesis
      by (subst str_nat.simps) (simp add: str_nat_nonempty)
  qed
qed

lemma str_nat_len: "(2 \<le> length (str_nat n)) = (10 \<le> n)"
proof (cases "n < 10")
  case True
  then show ?thesis by (simp add: str_nat_small)
next
  case False
  have "str_nat (n div 10) \<noteq> []" by (rule str_nat_nonempty)
  then have "Suc 0 \<le> length (str_nat (n div 10))" by (cases "str_nat (n div 10)") simp_all
  with False show ?thesis by (subst str_nat.simps) simp
qed

lemma format_02_small: "i < 10 \<Longrightarrow> format_02 i = [CHR ''0'', ''0123456789'' ! i]"
  by (simp add: format_02_def str_nat_small)

lemma format_02_big: "10 \<le> i \<Longrightarrow> format_02 i = str_nat i"
  using str_nat_len [of i] by (simp add: format_02_def)

lemma format_02_props:
  "2 \<le> length (format_02 i) \<and> (\<forall>c \<in> set (format_02 i). is_digit c) \<and> dec_value (format_02 i) = i
   \<and> (2 < length (format_02 i) \<longrightarrow> hd (format_02 i) \<noteq> CHR ''0'')"
proof (cases "i < 10")
  case True
  have "is_digit (CHR ''0'')" by (simp add: is_digit_def)
  with True show ?thesis
    by (simp add: format_02_small digit_is_digit dec_value_def digit_value)
next
  case False
  then have b: "format_02 i = str_nat i" by (simp add: format_02_big)
  have "2 \<le> length (str_nat i)" using False by (simp add: str_nat_len)
  moreover have "hd (str_nat i) \<noteq> CHR ''0''" using False by (intro str_nat_hd) simp
  ultimately show ?thesis using str_nat_digits [of i] by (simp add: b str_nat_value)
qed

subsection \<open>The grid\<close>

lemma is_grid_iff:
  "is_grid nr a = (\<exists>xss. a = Ax2D xss \<and> length xss = nr \<and> (\<forall>r < nr. length (xss ! r) = 2))"
  by (cases a) (auto simp: is_grid_def list_all_length)

lemma cell_holds_iff:
  "cell_holds a k p = (\<exists>x. ax_cell a (fst (cell_of k)) (snd (cell_of k)) = Inr x \<and>
      title x = Some (caption k p) \<and> shown x \<noteq> None)"
  by (auto simp: cell_holds_def split: sum.splits)

lemma is_grid_cell:
  "is_grid nr a \<Longrightarrow> (\<exists>x. ax_cell a r c = Inr x) = (r < nr \<and> c < 2)"
  by (auto simp: is_grid_iff ax_cell_def split: if_splits)

lemma is_grid_put:
  assumes "is_grid nr a"
  shows "is_grid nr (ax_put a r c x)"
proof -
  from assms obtain xss where a: "a = Ax2D xss" and l: "length xss = nr"
    and w: "\<forall>r < nr. length (xss ! r) = 2"
    by (auto simp: is_grid_iff)
  have "length (xss[r := (xss ! r)[c := x]] ! q) = 2" if "q < nr" for q
    using that l w by (cases "q = r") simp_all
  with a l show ?thesis by (simp add: is_grid_iff ax_put_def)
qed

lemma ax_cell_put:
  "is_grid nr a \<Longrightarrow> r < nr \<Longrightarrow> c < 2 \<Longrightarrow>
     ax_cell (ax_put a r c x) r' c' = (if r' = r \<and> c' = c then Inr x else ax_cell a r' c')"
  by (auto simp: is_grid_iff ax_put_def ax_cell_def nth_list_update)

lemma ax_cell_put_same: "ax_cell a r c = Inr x \<Longrightarrow> ax_cell (ax_put a r c y) r c = Inr y"
  by (cases a) (auto simp: ax_cell_def ax_put_def split: if_splits)

lemma subplots_grid:
  "2 \<le> nr \<Longrightarrow> subplots nr 2 = Inr (Ax2D (replicate nr [blank, blank]))"
  by (simp add: subplots_def numeral_2_eq_2)

lemma replicate_is_grid: "is_grid nr (Ax2D (replicate nr [blank, blank]))"
  by (simp add: is_grid_iff)

lemma replicate_blank:
  "r < nr \<Longrightarrow> c < 2 \<Longrightarrow> ax_cell (Ax2D (replicate nr [blank, blank])) r c = Inr blank"
  by (cases c) (simp_all add: ax_cell_def)

lemma subplots_one_row: "subplots (Suc 0) 2 = Inr (Ax1D [blank, blank])"
  by (simp add: subplots_def numeral_2_eq_2)

lemma ax_cell_1D: "\<exists>e. ax_cell (Ax1D xs) r c = Inl e"
  by (simp add: ax_cell_def)

lemma add_to_plot_1D: "\<exists>e. add_to_plot (Ax1D xs) i p img = (Some (Raise e 89), Ax1D xs)"
  by (simp add: add_to_plot_def ax_cell_def Let_def)

lemma add_to_plot_1D_first:
  "i div 2 < length xs \<Longrightarrow> add_to_plot (Ax1D xs) i p img = (Some (Raise TypeError 89), Ax1D xs)"
  by (simp add: add_to_plot_def ax_cell_def Let_def cell_of_def)

lemma add_to_plot_no_image: "\<exists>e l a'. add_to_plot a i p None = (Some (Raise e l), a') \<and> 89 \<le> l"
  by (auto simp: add_to_plot_def Let_def split: sum.splits)



lemma cell_of_inj: "cell_of i = cell_of j \<Longrightarrow> i = j"
  by (auto simp: cell_of_def) (metis div_mult_mod_eq)

lemma add_to_plot_None:
  "add_to_plot a i p img = (None, a') \<Longrightarrow>
     \<exists>x im. ax_cell a (fst (cell_of i)) (snd (cell_of i)) = Inr x \<and> img = Some im \<and>
       a' = ax_put a (fst (cell_of i)) (snd (cell_of i))
              (x\<lparr>title := Some (caption i p), shown := Some im\<rparr>)"
  by (auto simp: add_to_plot_def Let_def split: sum.splits option.splits)

subsection \<open>The loop\<close>

lemma load_image_ax: "load_image ns ev f s = (r, s') \<Longrightarrow> ax s' = ax s"
  by (auto simp: load_image_def Let_def split: option.splits sum.splits if_splits)

lemma process_file_1D:
  assumes "ax s = Ax1D xs"
  shows "\<exists>fl s'. process_file ns ev i f s = (Some fl, s') \<and> ax s' = Ax1D xs"
proof (cases "load_image ns ev f s")
  case (Pair r s2)
  then have a: "ax s2 = Ax1D xs" using load_image_ax assms by metis
  show ?thesis
  proof (cases r)
    case (Inl fl)
    with Pair a show ?thesis by (simp add: process_file_def)
  next
    case (Inr v)
    obtain d p img where v: "v = (d, p, img)" by (cases v)
    show ?thesis
    proof (cases "draw_annotations d img")
      case (Inl fl)
      with Pair Inr v a show ?thesis by (simp add: process_file_def)
    next
      case (Inr img')
      obtain e where "add_to_plot (Ax1D xs) i p img' = (Some (Raise e 89), Ax1D xs)"
        using add_to_plot_1D by blast
      with Pair \<open>r = Inr v\<close> v a Inr show ?thesis by (simp add: process_file_def Let_def)
    qed
  qed
qed

lemma run_files_1D:
  assumes "ax s = Ax1D xs" and "fs \<noteq> []"
  shows "\<exists>fl s'. run_files ns ev i fs s = (Some fl, s') \<and> ax s' = Ax1D xs"
proof -
  from assms(2) obtain f rest where fs: "fs = f # rest" by (cases fs) auto
  from assms(1) obtain fl s' where "process_file ns ev i f s = (Some fl, s')" "ax s' = Ax1D xs"
    using process_file_1D by blast
  with fs show ?thesis by simp
qed

lemma load_image_resolved:
  "load_image ns ev f s = (Inr (d, p, img), s2) \<Longrightarrow> resolved ev f = Some p"
  by (auto simp: load_image_def resolved_def Let_def split: option.splits sum.splits if_splits)

lemma resolved_iff:
  "(resolved ev f = Some p) =
     (\<exists>raw d fv. s3_cat ev f = Some raw \<and> json_loads ev raw = Inr d
        \<and> getitem d ''file'' = Inr fv \<and> os_path_join img_path fv = Inr p)"
  by (auto simp: resolved_def split: option.splits sum.splits)

lemma process_file_None:
  assumes "process_file ns ev i f s = (None, s')"
  shows "\<exists>x im p. resolved ev f = Some p \<and>
       ax_cell (ax s) (fst (cell_of i)) (snd (cell_of i)) = Inr x \<and>
       ax s' = ax_put (ax s) (fst (cell_of i)) (snd (cell_of i))
              (x\<lparr>title := Some (caption i p), shown := Some im\<rparr>)"
proof (cases "load_image ns ev f s")
  case (Pair r s2)
  then have a: "ax s2 = ax s" using load_image_ax by metis
  show ?thesis
  proof (cases r)
    case (Inl fl)
    with Pair assms show ?thesis by (simp add: process_file_def)
  next
    case (Inr v)
    obtain d p img where v: "v = (d, p, img)" by (cases v)
    have rp: "resolved ev f = Some p"
      using Pair Inr v load_image_resolved by metis
    show ?thesis
    proof (cases "draw_annotations d img")
      case (Inl fl)
      with Pair \<open>r = Inr v\<close> v assms show ?thesis by (simp add: process_file_def)
    next
      case (Inr img')
      with Pair \<open>r = Inr v\<close> v assms
      have "add_to_plot (ax s2) i p img' = (None, ax s')"
        by (cases "add_to_plot (ax s2) i p img'") (auto simp: process_file_def Let_def)
      from add_to_plot_None [OF this] a rp show ?thesis by auto
    qed
  qed
qed

lemma process_file_step:
  assumes ok: "process_file ns ev i f s = (None, s')" and g: "is_grid nr (ax s)"
  shows "is_grid nr (ax s') \<and> (\<exists>p. resolved ev f = Some p \<and> cell_holds (ax s') i p) \<and>
    (\<forall>k. k \<noteq> i \<longrightarrow> ax_cell (ax s') (fst (cell_of k)) (snd (cell_of k))
                      = ax_cell (ax s) (fst (cell_of k)) (snd (cell_of k)))"
proof -
  from process_file_None [OF ok] obtain x im p where
    rp: "resolved ev f = Some p" and
    c: "ax_cell (ax s) (fst (cell_of i)) (snd (cell_of i)) = Inr x" and
    a: "ax s' = ax_put (ax s) (fst (cell_of i)) (snd (cell_of i))
              (x\<lparr>title := Some (caption i p), shown := Some im\<rparr>)" by blast
  from c g have r: "fst (cell_of i) < nr \<and> snd (cell_of i) < 2"
    using is_grid_cell by blast
  have 1: "is_grid nr (ax s')" using a g by (simp add: is_grid_put)
  have "cell_holds (ax s') i p"
    using r g by (simp add: cell_holds_iff a ax_cell_put)
  with rp have 2: "\<exists>p. resolved ev f = Some p \<and> cell_holds (ax s') i p" by blast
  have 3: "ax_cell (ax s') (fst (cell_of k)) (snd (cell_of k))
                      = ax_cell (ax s) (fst (cell_of k)) (snd (cell_of k))" if "k \<noteq> i" for k
  proof -
    have "cell_of k \<noteq> cell_of i" using that cell_of_inj by blast
    then have "\<not> (fst (cell_of k) = fst (cell_of i) \<and> snd (cell_of k) = snd (cell_of i))"
      by (simp add: prod_eq_iff)
    then show ?thesis using r g by (auto simp: a ax_cell_put)
  qed
  from 1 2 3 show ?thesis by blast
qed

text \<open>The invariant of the loop: \<open>pre\<close> are the files done, \<open>fs\<close> the files to come.\<close>

lemma run_files_fill:
  "run_files ns ev (length pre) fs s = (None, s') \<Longrightarrow> is_grid nr (ax s) \<Longrightarrow>
   (\<forall>k < length pre. \<exists>p. resolved ev (pre ! k) = Some p \<and> cell_holds (ax s) k p) \<Longrightarrow>
   (\<forall>k \<ge> length pre. k < 2 * nr \<longrightarrow> cell_blank (ax s) k) \<Longrightarrow>
   is_grid nr (ax s')
   \<and> (\<forall>k < length (pre @ fs). \<exists>p. resolved ev ((pre @ fs) ! k) = Some p \<and> cell_holds (ax s') k p)
   \<and> (\<forall>k \<ge> length (pre @ fs). k < 2 * nr \<longrightarrow> cell_blank (ax s') k)"
proof (induction fs arbitrary: pre s)
  case Nil
  then show ?case by simp
next
  case (Cons f fs)
  let ?i = "length pre"
  from Cons.prems(1) obtain s1 where
    p: "process_file ns ev ?i f s = (None, s1)" and
    r: "run_files ns ev (length (pre @ [f])) fs s1 = (None, s')"
    by (auto split: prod.splits option.splits)
  from process_file_step [OF p Cons.prems(2)] obtain q where
    g1: "is_grid nr (ax s1)" and q: "resolved ev f = Some q" "cell_holds (ax s1) ?i q" and
    u1: "\<And>k. k \<noteq> ?i \<Longrightarrow> ax_cell (ax s1) (fst (cell_of k)) (snd (cell_of k))
                      = ax_cell (ax s) (fst (cell_of k)) (snd (cell_of k))"
    by blast
  have a: "\<forall>k < length (pre @ [f]). \<exists>p. resolved ev ((pre @ [f]) ! k) = Some p
             \<and> cell_holds (ax s1) k p"
  proof (intro allI impI)
    fix k assume k: "k < length (pre @ [f])"
    show "\<exists>p. resolved ev ((pre @ [f]) ! k) = Some p \<and> cell_holds (ax s1) k p"
    proof (cases "k = ?i")
      case True
      with q show ?thesis by auto
    next
      case False
      with k have lt: "k < ?i" by simp
      with Cons.prems(3) obtain p' where "resolved ev (pre ! k) = Some p'" "cell_holds (ax s) k p'"
        by blast
      with u1 [OF False] lt show ?thesis by (auto simp: cell_holds_iff nth_append)
    qed
  qed
  have b: "\<forall>k \<ge> length (pre @ [f]). k < 2 * nr \<longrightarrow> cell_blank (ax s1) k"
  proof (intro allI impI)
    fix k assume "length (pre @ [f]) \<le> k" "k < 2 * nr"
    then have "k \<noteq> ?i" "?i \<le> k" by simp_all
    with Cons.prems(4) \<open>k < 2 * nr\<close> have "cell_blank (ax s) k" by blast
    with u1 [OF \<open>k \<noteq> ?i\<close>] show "cell_blank (ax s1) k" by (simp add: cell_blank_def)
  qed
  from Cons.IH [OF r g1 a b] show ?case by simp
qed

lemma run_files_abort:
  "run_files ns ev i pre s = (None, s1) \<Longrightarrow>
   process_file ns ev (i + length pre) f s1 = (Some fl, s2) \<Longrightarrow>
   run_files ns ev i (pre @ f # post) s = (Some fl, s2)"
proof (induction pre arbitrary: i s)
  case Nil
  then show ?case by simp
next
  case (Cons g pre)
  from Cons.prems(1) obtain s' where
    p: "process_file ns ev i g s = (None, s')" and
    r: "run_files ns ev (Suc i) pre s' = (None, s1)"
    by (auto split: prod.splits option.splits)
  from Cons.prems(2) have "process_file ns ev (Suc i + length pre) f s1 = (Some fl, s2)" by simp
  from Cons.IH [OF r this] p show ?case by simp
qed

text \<open>The three shapes of the array that line 61 binds to \<^verbatim>\<open>ax\<close>.\<close>

lemma first_subplots:
  "subplots (fst (grid_shape n)) (snd (grid_shape n)) =
     (if n = 0 then Inl ValueError
      else if n \<le> 2 then Inr (Ax1D [blank, blank])
      else Inr (Ax2D (replicate ((n + 1) div 2) [blank, blank])))"
proof -
  consider "n = 0" | "n = 1 \<or> n = 2" | "3 \<le> n" by arith
  then show ?thesis
  proof cases
    case 1
    then show ?thesis by (simp add: grid_shape_def subplots_def)
  next
    case 2
    then have "(n + 1) div 2 = Suc 0" by arith
    with 2 show ?thesis by (auto simp: grid_shape_def subplots_one_row)
  next
    case 3
    then have "2 \<le> (n + 1) div 2" by arith
    with 3 show ?thesis by (simp add: grid_shape_def subplots_grid)
  qed
qed

lemma run_cell_files:
  assumes "s3_ls ev json_path = Some files"
  shows "run_cell ns ev =
     (if files = [] then Inl (Raise ValueError 61)
      else if length files \<le> 2
        then Inr (run_files ns ev 0 files \<lparr>cat_calls = [], ax = Ax1D [blank, blank]\<rparr>)
      else Inr (run_files ns ev 0 files
             \<lparr>cat_calls = [], ax = Ax2D (replicate ((length files + 1) div 2) [blank, blank])\<rparr>))"
  using assms by (simp add: run_cell_def Let_def first_subplots)

lemma run_cell_shown:
  assumes ls: "s3_ls ev json_path = Some files" and ok: "run_cell ns ev = Inr (None, s)"
  shows "3 \<le> length files \<and> is_grid (fst (grid_shape (length files))) (ax s)
     \<and> (\<forall>k < length files. \<exists>p. resolved ev (files ! k) = Some p \<and> cell_holds (ax s) k p)
     \<and> (\<forall>k \<ge> length files. k < 2 * fst (grid_shape (length files)) \<longrightarrow> cell_blank (ax s) k)"
proof -
  let ?n = "length files" and ?nr = "(length files + 1) div 2"
  let ?s0 = "\<lparr>cat_calls = [], ax = Ax2D (replicate ?nr [blank, blank])\<rparr>"
  have ne: "files \<noteq> []" using ok by (auto simp: run_cell_files [OF ls])
  have big: "\<not> ?n \<le> 2"
  proof
    assume le: "?n \<le> 2"
    obtain fl s' where "run_files ns ev 0 files \<lparr>cat_calls = [], ax = Ax1D [blank, blank]\<rparr> = (Some fl, s')"
      using run_files_1D [OF _ ne, of "\<lparr>cat_calls = [], ax = Ax1D [blank, blank]\<rparr>" "[blank, blank]" ns ev 0]
      by auto
    with ok ne le show False by (simp add: run_cell_files [OF ls])
  qed
  with ne ok have r: "run_files ns ev (length ([] :: string list)) files ?s0 = (None, s)"
    by (simp add: run_cell_files [OF ls])
  have g: "is_grid ?nr (ax ?s0)" by (simp add: replicate_is_grid)
  have a: "\<forall>k < length ([] :: string list). \<exists>p. resolved ev ([] ! k) = Some p \<and> cell_holds (ax ?s0) k p"
    by simp
  have b: "\<forall>k \<ge> length ([] :: string list). k < 2 * ?nr \<longrightarrow> cell_blank (ax ?s0) k"
    by (auto simp: cell_blank_def cell_of_def intro!: replicate_blank)
  from run_files_fill [OF r g a b] big show ?thesis by (simp add: grid_shape_def)
qed

subsection \<open>Evaluating the cell on the example buckets\<close>

lemma replicate_2: "replicate 2 x = [x, x]"
  by (simp add: numeral_2_eq_2)

lemma replicate_3: "replicate 3 x = [x, x, x]"
  by (simp add: numeral_3_eq_3)

lemmas eval_defs = run_cell_def world_def Let_def grid_shape_def subplots_def
  process_file_def load_image_def name_bound_os doc_def img_path_def json_path_def
  os_path_join_def imdecode_def gray_def draw_annotations_def at_line_def
  add_to_plot_def cell_of_def ax_cell_def ax_put_def blank_def
  draw_bbox_def bbox4_def bbox_color_def rectangle_def color_of_def
  caption_def format_02_small numeral_2_eq_2 [symmetric] replicate_2 replicate_3
  c_int_def fits_c_int_def




text \<open>
  C7. The caption of the file of index \<open>i\<close> is \<^verbatim>\<open>[img-\<close>, the digits of \<open>i\<close>, \<^verbatim>\<open>] \<close> and the
  image's path. The digits are decimal, they denote \<open>i\<close>, there are at least two of them
  and a leading zero only pads to two: for \<open>i = 2\<close> the caption is \<^verbatim>\<open>[img-02] \<close> and the
  path. It is the title that lines 88 to 91 give the cell of the file: after the iteration
  of the annotation file at enumeration index \<open>i\<close>, and at \<^verbatim>\<open>plt.show()\<close>, the cell of
  index \<open>i\<close> has the caption of \<open>i\<close> and of the path that line 70 resolved for that very
  file, \<^verbatim>\<open>os.path.join(img_path, d['file'])\<close>.
\<close>

theorem caption_format:
  "caption 2 p = ''[img-02] '' @ p
   \<and> (\<exists>ds. caption i p = ''[img-'' @ ds @ ''] '' @ p \<and> 2 \<le> length ds
         \<and> (\<forall>c \<in> set ds. is_digit c) \<and> dec_value ds = i
         \<and> (2 < length ds \<longrightarrow> hd ds \<noteq> CHR ''0''))
   \<and> (\<forall>a a' im. add_to_plot a i p (Some im) = (None, a')
         \<longrightarrow> (\<exists>x. ax_cell a' (fst (cell_of i)) (snd (cell_of i)) = Inr x
                  \<and> title x = Some (caption i p)))
   \<and> (\<forall>ns ev f s s'. process_file ns ev i f s = (None, s')
         \<longrightarrow> (\<exists>raw d fv q x.
                s3_cat ev f = Some raw \<and> json_loads ev raw = Inr d
                \<and> getitem d ''file'' = Inr fv \<and> os_path_join img_path fv = Inr q
                \<and> ax_cell (ax s') (fst (cell_of i)) (snd (cell_of i)) = Inr x
                \<and> title x = Some (caption i q)))
   \<and> (\<forall>ns ev files s.
         s3_ls ev json_path = Some files \<and> run_cell ns ev = Inr (None, s) \<and> i < length files
         \<longrightarrow> (\<exists>raw d fv q x.
                s3_cat ev (files ! i) = Some raw \<and> json_loads ev raw = Inr d
                \<and> getitem d ''file'' = Inr fv \<and> os_path_join img_path fv = Inr q
                \<and> ax_cell (ax s) (fst (cell_of i)) (snd (cell_of i)) = Inr x
                \<and> title x = Some (caption i q)))"
proof -
  have 1: "caption 2 p = ''[img-02] '' @ p"
    by (simp add: caption_def format_02_small)
  have 2: "\<exists>ds. caption i p = ''[img-'' @ ds @ ''] '' @ p \<and> 2 \<le> length ds
         \<and> (\<forall>c \<in> set ds. is_digit c) \<and> dec_value ds = i
         \<and> (2 < length ds \<longrightarrow> hd ds \<noteq> CHR ''0'')"
    using format_02_props [of i] by (intro exI [of _ "format_02 i"]) (simp add: caption_def)
  have 3: "\<exists>x. ax_cell a' (fst (cell_of i)) (snd (cell_of i)) = Inr x
                  \<and> title x = Some (caption i p)"
    if "add_to_plot a i p (Some im) = (None, a')" for a a' im
  proof -
    from add_to_plot_None [OF that] obtain x where
      "ax_cell a (fst (cell_of i)) (snd (cell_of i)) = Inr x"
      "a' = ax_put a (fst (cell_of i)) (snd (cell_of i))
              (x\<lparr>title := Some (caption i p), shown := Some im\<rparr>)"
      by auto
    then show ?thesis by (simp add: ax_cell_put_same)
  qed
  have 4: "\<exists>raw d fv q x.
                s3_cat ev f = Some raw \<and> json_loads ev raw = Inr d
                \<and> getitem d ''file'' = Inr fv \<and> os_path_join img_path fv = Inr q
                \<and> ax_cell (ax s') (fst (cell_of i)) (snd (cell_of i)) = Inr x
                \<and> title x = Some (caption i q)"
    if "process_file ns ev i f s = (None, s')" for ns ev f s s'
  proof -
    from process_file_None [OF that] obtain x im q where
      q: "resolved ev f = Some q" and
      c: "ax_cell (ax s) (fst (cell_of i)) (snd (cell_of i)) = Inr x" and
      a: "ax s' = ax_put (ax s) (fst (cell_of i)) (snd (cell_of i))
              (x\<lparr>title := Some (caption i q), shown := Some im\<rparr>)"
      by blast
    have "ax_cell (ax s') (fst (cell_of i)) (snd (cell_of i))
            = Inr (x\<lparr>title := Some (caption i q), shown := Some im\<rparr>)"
      unfolding a using c by (rule ax_cell_put_same)
    moreover have "title (x\<lparr>title := Some (caption i q), shown := Some im\<rparr>) = Some (caption i q)"
      by simp
    ultimately show ?thesis using q unfolding resolved_iff by blast
  qed
  have 5: "\<exists>raw d fv q x.
                s3_cat ev (files ! i) = Some raw \<and> json_loads ev raw = Inr d
                \<and> getitem d ''file'' = Inr fv \<and> os_path_join img_path fv = Inr q
                \<and> ax_cell (ax s) (fst (cell_of i)) (snd (cell_of i)) = Inr x
                \<and> title x = Some (caption i q)"
    if "s3_ls ev json_path = Some files" "run_cell ns ev = Inr (None, s)" "i < length files"
    for ns ev files s
  proof -
    from run_cell_shown [OF that(1,2)] that(3) obtain q where
      "resolved ev (files ! i) = Some q" "cell_holds (ax s) i q" by blast
    then show ?thesis unfolding resolved_iff cell_holds_iff by blast
  qed
  from 1 2 3 4 5 show ?thesis by blast
qed

theorem caption_format_witness:
  "caption 2 (img_path @ ''c.jpg'') = ''[img-02] s3://bucket/dataset/train/c.jpg''
   \<and> caption 123 ''p'' = ''[img-123] p''
   \<and> add_to_plot (Ax2D [[blank, blank], [blank, blank]]) 2 ''p'' (Some \<lparr>pixels = gray, rects = []\<rparr>)
       = (None, Ax2D [[blank, blank],
                      [\<lparr>title = Some ''[img-02] p'', shown = Some \<lparr>pixels = gray, rects = []\<rparr>\<rparr>, blank]])
   \<and> (\<exists>x. ax_cell (Ax2D [[blank, blank],
                      [\<lparr>title = Some ''[img-02] p'', shown = Some \<lparr>pixels = gray, rects = []\<rparr>\<rparr>, blank]])
              (fst (cell_of 2)) (snd (cell_of 2)) = Inr x \<and> title x = Some (caption 2 ''p''))
   \<and> s3_cat world5 ''c.json'' = Some ''C'' \<and> json_loads world5 ''C'' = Inr (doc ''c.jpg'' [])
   \<and> getitem (doc ''c.jpg'' []) ''file'' = Inr (PyStr ''c.jpg'')
   \<and> os_path_join img_path (PyStr ''c.jpg'') = Inr ''s3://bucket/dataset/train/c.jpg''
   \<and> (\<exists>s' x. process_file {''os''} world5 2 ''c.json''
                 \<lparr>cat_calls = [], ax = Ax2D [[blank, blank], [blank, blank], [blank, blank]]\<rparr>
               = (None, s')
          \<and> ax_cell (ax s') (fst (cell_of 2)) (snd (cell_of 2)) = Inr x
          \<and> title x = Some ''[img-02] s3://bucket/dataset/train/c.jpg'')
   \<and> (\<exists>s x. run_cell {''os''} world5 = Inr (None, s)
          \<and> ax_cell (ax s) (fst (cell_of 2)) (snd (cell_of 2)) = Inr x
          \<and> title x = Some ''[img-02] s3://bucket/dataset/train/c.jpg'')"
proof -
  let ?files = "[''a.json'', ''b.json'', ''c.json'', ''d.json'', ''e.json'']"
  let ?g = "\<lparr>cat_calls = [], ax = Ax2D [[blank, blank], [blank, blank], [blank, blank]]\<rparr>"
  let ?q = "''s3://bucket/dataset/train/c.jpg''"
  note t = caption_format [of "''p''" 2]
  have a: "add_to_plot (Ax2D [[blank, blank], [blank, blank]]) 2 ''p'' (Some \<lparr>pixels = gray, rects = []\<rparr>)
       = (None, Ax2D [[blank, blank],
                      [\<lparr>title = Some ''[img-02] p'', shown = Some \<lparr>pixels = gray, rects = []\<rparr>\<rparr>, blank]])"
    by (simp add: add_to_plot_def cell_of_def ax_cell_def ax_put_def caption_def format_02_small
        blank_def)
  have c1: "caption 2 (img_path @ ''c.jpg'') = ''[img-02] s3://bucket/dataset/train/c.jpg''"
    using caption_format [of "img_path @ ''c.jpg''" 2] by (simp add: img_path_def)
  have c2: "caption 123 ''p'' = ''[img-123] p''"
    by (simp add: caption_def format_02_def str_nat.simps)
  have c3: "\<exists>x. ax_cell (Ax2D [[blank, blank],
                      [\<lparr>title = Some ''[img-02] p'', shown = Some \<lparr>pixels = gray, rects = []\<rparr>\<rparr>, blank]])
              (fst (cell_of 2)) (snd (cell_of 2)) = Inr x \<and> title x = Some (caption 2 ''p'')"
    using t a by blast
  have w: "s3_cat world5 ''c.json'' = Some ''C''" "json_loads world5 ''C'' = Inr (doc ''c.jpg'' [])"
    "getitem (doc ''c.jpg'' []) ''file'' = Inr (PyStr ''c.jpg'')"
    "os_path_join img_path (PyStr ''c.jpg'') = Inr ?q"
    by (simp_all add: world5_def world_def doc_def os_path_join_def img_path_def)
  have cq: "caption 2 ?q = ''[img-02] s3://bucket/dataset/train/c.jpg''"
    using c1 by (simp add: img_path_def)
  have ls: "s3_ls world5 json_path = Some ?files" by (simp add: world5_def world_def)
  have i2: "(2::nat) < length ?files" "?files ! 2 = ''c.json''" by simp_all
  have "\<exists>s'. process_file {''os''} world5 2 ''c.json'' ?g = (None, s')"
    by (simp add: eval_defs world5_def)
  then obtain s' where p: "process_file {''os''} world5 2 ''c.json'' ?g = (None, s')" by blast
  from t p obtain raw d fv q x where
    "s3_cat world5 ''c.json'' = Some raw" "json_loads world5 raw = Inr d"
    "getitem d ''file'' = Inr fv" "os_path_join img_path fv = Inr q"
    "ax_cell (ax s') (fst (cell_of 2)) (snd (cell_of 2)) = Inr x" "title x = Some (caption 2 q)"
    by blast
  with w cq have "ax_cell (ax s') (fst (cell_of 2)) (snd (cell_of 2)) = Inr x
      \<and> title x = Some ''[img-02] s3://bucket/dataset/train/c.jpg''"
    by simp
  with p have c4: "\<exists>s' x. process_file {''os''} world5 2 ''c.json'' ?g = (None, s')
          \<and> ax_cell (ax s') (fst (cell_of 2)) (snd (cell_of 2)) = Inr x
          \<and> title x = Some ''[img-02] s3://bucket/dataset/train/c.jpg''"
    by blast
  have "\<exists>s. run_cell {''os''} world5 = Inr (None, s)"
    by (simp add: eval_defs world5_def)
  then obtain s where r: "run_cell {''os''} world5 = Inr (None, s)" by blast
  from t ls r i2(1) obtain raw d fv q x where
    "s3_cat world5 (?files ! 2) = Some raw" "json_loads world5 raw = Inr d"
    "getitem d ''file'' = Inr fv" "os_path_join img_path fv = Inr q"
    "ax_cell (ax s) (fst (cell_of 2)) (snd (cell_of 2)) = Inr x" "title x = Some (caption 2 q)"
    by blast
  with w cq i2(2) have "ax_cell (ax s) (fst (cell_of 2)) (snd (cell_of 2)) = Inr x
      \<and> title x = Some ''[img-02] s3://bucket/dataset/train/c.jpg''"
    by simp
  with r have c5: "\<exists>s x. run_cell {''os''} world5 = Inr (None, s)
          \<and> ax_cell (ax s) (fst (cell_of 2)) (snd (cell_of 2)) = Inr x
          \<and> title x = Some ''[img-02] s3://bucket/dataset/train/c.jpg''"
    by blast
  from c1 c2 a c3 w c4 c5 show ?thesis by simp
qed

text \<open>
  C10. With one or two annotation files the grid has one row, \<^verbatim>\<open>plt.subplots\<close> returns a
  one-dimensional array, and \<^verbatim>\<open>ax[row][col]\<close> raises on it whatever the row and column.
  The cell then never reaches \<^verbatim>\<open>plt.show()\<close> and leaves the array as it was made; when
  the first file loads and its boxes are drawn, the exception is the TypeError of
  line 89. In any run, a cell of the array can be reached only if the grid has at least
  two rows.
\<close>

theorem single_row_fails:
  assumes ls: "s3_ls ev json_path = Some files"
  shows "(length files = 1 \<or> length files = 2 \<longrightarrow>
            subplots (fst (grid_shape (length files))) (snd (grid_shape (length files)))
              = Inr (Ax1D [blank, blank])
          \<and> (\<forall>row col. \<exists>e. ax_cell (Ax1D [blank, blank]) row col = Inl e)
          \<and> (\<exists>fl s. run_cell ns ev = Inr (Some fl, s) \<and> ax s = Ax1D [blank, blank])
          \<and> (\<forall>d p img img' s2.
                load_image ns ev (hd files) \<lparr>cat_calls = [], ax = Ax1D [blank, blank]\<rparr>
                  = (Inr (d, p, img), s2)
                \<and> draw_annotations d img = Inr img'
                \<longrightarrow> run_cell ns ev = Inr (Some (Raise TypeError 89), s2)))
     \<and> (\<forall>r s row col x. run_cell ns ev = Inr (r, s) \<and> ax_cell (ax s) row col = Inr x
           \<longrightarrow> 2 \<le> fst (grid_shape (length files)))"
proof -
  let ?s0 = "\<lparr>cat_calls = [], ax = Ax1D [blank, blank]\<rparr>"
  have one_row: "run_cell ns ev = Inr (run_files ns ev 0 files ?s0)" "files \<noteq> []"
    if "length files = 1 \<or> length files = 2"
    using that run_cell_files [OF ls, of ns] by auto
  have stuck: "\<exists>fl s. run_files ns ev 0 files ?s0 = (Some fl, s) \<and> ax s = Ax1D [blank, blank]"
    if "files \<noteq> []"
    using run_files_1D [OF _ that, of ?s0 "[blank, blank]" ns ev 0] by simp
  have a: "subplots (fst (grid_shape (length files))) (snd (grid_shape (length files)))
              = Inr (Ax1D [blank, blank])"
    if "length files = 1 \<or> length files = 2"
    using that by (auto simp: first_subplots)
  have b: "\<forall>row col. \<exists>e. ax_cell (Ax1D [blank, blank]) row col = Inl e"
    using ax_cell_1D by blast
  have c: "\<exists>fl s. run_cell ns ev = Inr (Some fl, s) \<and> ax s = Ax1D [blank, blank]"
    if "length files = 1 \<or> length files = 2"
    using one_row [OF that] stuck by simp
  have d: "run_cell ns ev = Inr (Some (Raise TypeError 89), s2)"
    if n: "length files = 1 \<or> length files = 2"
      and l: "load_image ns ev (hd files) ?s0 = (Inr (d, p, img), s2)"
      and dr: "draw_annotations d img = Inr img'"
    for d p img img' s2
  proof -
    from one_row [OF n] obtain f rest where fs: "files = f # rest" by (cases files) auto
    have s2: "ax s2 = Ax1D [blank, blank]" using load_image_ax [OF l] by simp
    have "add_to_plot (ax s2) 0 p img' = (Some (Raise TypeError 89), ax s2)"
      unfolding s2 by (rule add_to_plot_1D_first) simp
    with l dr fs have "process_file ns ev 0 f ?s0 = (Some (Raise TypeError 89), s2)"
      by (simp add: process_file_def Let_def)
    with fs one_row [OF n] show ?thesis by simp
  qed
  have e: "2 \<le> fst (grid_shape (length files))"
    if r: "run_cell ns ev = Inr (r, s)" and x: "ax_cell (ax s) row col = Inr x" for r s row col x
  proof (rule ccontr)
    assume "\<not> 2 \<le> fst (grid_shape (length files))"
    then have small: "length files \<le> 2" by (simp add: grid_shape_def)
    from r have ne: "files \<noteq> []" by (auto simp: run_cell_files [OF ls])
    then have "length files \<noteq> 0" by simp
    with small have n: "length files = 1 \<or> length files = 2" by arith
    from one_row [OF n] r stuck [OF ne] have "ax s = Ax1D [blank, blank]" by auto
    with x ax_cell_1D [of "[blank, blank]" row col] show False by auto
  qed
  from a b c d e show ?thesis by blast
qed

theorem single_row_fails_witness:
  "s3_ls world1 json_path = Some [''a.json''] \<and> length [''a.json''] = 1
   \<and> subplots (fst (grid_shape 1)) (snd (grid_shape 1)) = Inr (Ax1D [blank, blank])
   \<and> run_cell {''os''} world1
       = Inr (Some (Raise TypeError 89),
              \<lparr>cat_calls = [''a.json'', img_path @ ''a.jpg''], ax = Ax1D [blank, blank]\<rparr>)
   \<and> s3_ls world5 json_path = Some [''a.json'', ''b.json'', ''c.json'', ''d.json'', ''e.json'']
   \<and> (\<exists>s x. run_cell {''os''} world5 = Inr (None, s) \<and> ax_cell (ax s) 0 0 = Inr x)
   \<and> 2 \<le> fst (grid_shape (length [''a.json'', ''b.json'', ''c.json'', ''d.json'', ''e.json'']))"
proof -
  let ?s0 = "\<lparr>cat_calls = [], ax = Ax1D [blank, blank]\<rparr>"
  let ?s2 = "\<lparr>cat_calls = [''a.json'', img_path @ ''a.jpg''], ax = Ax1D [blank, blank]\<rparr>"
  let ?im = "\<lparr>pixels = gray\<lparr>channels := 3, depth := 8\<rparr>, rects = []\<rparr>"
  have ls1: "s3_ls world1 json_path = Some [''a.json'']"
    by (simp add: world1_def world_def)
  have l: "load_image {''os''} world1 (hd [''a.json'']) ?s0
             = (Inr (doc ''a.jpg'' [bbox4], img_path @ ''a.jpg'', Some ?im), ?s2)"
    by (simp add: eval_defs world1_def)
  have "\<exists>img'. draw_annotations (doc ''a.jpg'' [bbox4]) (Some ?im) = Inr img'"
    by (simp add: eval_defs)
  then obtain img' where dr: "draw_annotations (doc ''a.jpg'' [bbox4]) (Some ?im) = Inr img'"
    by blast
  have len1: "length [''a.json''] = 1" by simp
  note t1 = single_row_fails [OF ls1, of "{''os''}", unfolded len1]
  have sp: "subplots (fst (grid_shape 1)) (snd (grid_shape 1)) = Inr (Ax1D [blank, blank])"
    using t1 by blast
  have r1: "run_cell {''os''} world1 = Inr (Some (Raise TypeError 89), ?s2)"
    using t1 l dr by blast
  let ?files = "[''a.json'', ''b.json'', ''c.json'', ''d.json'', ''e.json'']"
  have ls5: "s3_ls world5 json_path = Some ?files"
    by (simp add: world5_def world_def)
  have "\<exists>s x. run_cell {''os''} world5 = Inr (None, s) \<and> ax_cell (ax s) 0 0 = Inr x"
    by (simp add: eval_defs world5_def)
  then obtain s x where r5: "run_cell {''os''} world5 = Inr (None, s)"
    and c5: "ax_cell (ax s) 0 0 = Inr x" by blast
  have "2 \<le> fst (grid_shape (length ?files))"
    using single_row_fails [OF ls5, of "{''os''}"] r5 c5 by blast
  with ls1 sp r1 ls5 r5 c5 show ?thesis by auto
qed

subsection \<open>Failures\<close>

lemma process_file_load_failure:
  "load_image ns ev f s = (Inl fl, s') \<Longrightarrow> process_file ns ev i f s = (Some fl, s')"
  by (simp add: process_file_def)

lemma load_image_bad_json:
  "s3_cat ev f = Some raw \<Longrightarrow> json_loads ev raw = Inl e \<Longrightarrow>
     load_image ns ev f s = (Inl (Raise e 66), s\<lparr>cat_calls := cat_calls s @ [f]\<rparr>)"
  by (simp add: load_image_def)

lemma load_image_no_os:
  "s3_cat ev f = Some raw \<Longrightarrow> json_loads ev raw = Inr d \<Longrightarrow> ''os'' \<notin> ns \<Longrightarrow>
     load_image ns ev f s = (Inl (Raise (NameError ''os'') 70), s\<lparr>cat_calls := cat_calls s @ [f]\<rparr>)"
  by (simp add: load_image_def name_bound_os)

lemma load_image_no_file:
  "s3_cat ev f = Some raw \<Longrightarrow> json_loads ev raw = Inr d \<Longrightarrow> ''os'' \<in> ns \<Longrightarrow>
   getitem d ''file'' = Inl e \<Longrightarrow>
     load_image ns ev f s = (Inl (Raise e 70), s\<lparr>cat_calls := cat_calls s @ [f]\<rparr>)"
  by (simp add: load_image_def name_bound_os)

lemma load_image_fetch:
  assumes "s3_cat ev f = Some raw" "json_loads ev raw = Inr d" "''os'' \<in> ns"
    "getitem d ''file'' = Inr fv" "os_path_join img_path fv = Inr p"
  shows "load_image ns ev f s =
     (case s3_cat ev p of
        None \<Rightarrow> (Inl (Raise (FileNotFoundError p) 71), s\<lparr>cat_calls := cat_calls s @ [f, p]\<rparr>)
      | Some b \<Rightarrow>
          (case imdecode (decoder ev) b 1 of
             Inl e \<Rightarrow> (Inl (Raise e 73), s\<lparr>cat_calls := cat_calls s @ [f, p]\<rparr>)
           | Inr m \<Rightarrow> (Inr (d, p, map_option (\<lambda>h. \<lparr>pixels = h, rects = []\<rparr>) m),
                       s\<lparr>cat_calls := cat_calls s @ [f, p]\<rparr>)))"
  using assms by (simp add: load_image_def name_bound_os split: option.splits sum.splits)

lemma process_file_no_image:
  assumes "load_image ns ev f s = (Inr (d, p, None), s2)"
  shows "\<exists>e l s'. process_file ns ev i f s = (Some (Raise e l), s') \<and> 76 \<le> l"
proof (cases "draw_annotations d None")
  case (Inl fl)
  then obtain e l where "fl = Raise e l" "76 \<le> l" using draw_annotations_Inl by blast
  with assms Inl show ?thesis by (simp add: process_file_def)
next
  case (Inr img')
  then have "img' = None" by (rule draw_annotations_None)
  moreover obtain e l a' where "add_to_plot (ax s2) i p None = (Some (Raise e l), a')" "89 \<le> l"
    using add_to_plot_no_image by blast
  ultimately show ?thesis using assms Inr by (simp add: process_file_def Let_def)
qed

text \<open>
  C9, as the cell has it. \<^verbatim>\<open>os\<close> is not among the names the cell binds. In a namespace
  that does not hold it either, a run whose first annotation file is fetched and parsed
  ends in the first iteration with the NameError of line 70: the only call of
  \<^verbatim>\<open>fs.cat\<close> so far fetched that annotation file, and the array of Axes is as
  \<^verbatim>\<open>plt.subplots\<close> returned it.
\<close>

theorem os_never_imported:
  assumes "''os'' \<notin> ns" and "s3_ls ev json_path = Some (f # fs)"
    and "s3_cat ev f = Some raw" and "json_loads ev raw = Inr d"
  shows "''os'' \<notin> set cell_names
    \<and> (\<exists>a. subplots (fst (grid_shape (length (f # fs)))) (snd (grid_shape (length (f # fs)))) = Inr a
          \<and> run_cell ns ev = Inr (Some (Raise (NameError ''os'') 70), \<lparr>cat_calls = [f], ax = a\<rparr>))"
proof -
  have 1: "''os'' \<notin> set cell_names" by (simp add: cell_names_def)
  have "\<exists>a. subplots (fst (grid_shape (length (f # fs)))) (snd (grid_shape (length (f # fs)))) = Inr a"
    by (simp add: first_subplots)
  then obtain a where
    a: "subplots (fst (grid_shape (length (f # fs)))) (snd (grid_shape (length (f # fs)))) = Inr a"
    by blast
  have "process_file ns ev 0 f \<lparr>cat_calls = [], ax = a\<rparr>
          = (Some (Raise (NameError ''os'') 70), \<lparr>cat_calls = [f], ax = a\<rparr>)"
    using load_image_no_os [OF assms(3,4,1), of "\<lparr>cat_calls = [], ax = a\<rparr>"]
    by (simp add: process_file_def)
  then have "run_cell ns ev = Inr (Some (Raise (NameError ''os'') 70), \<lparr>cat_calls = [f], ax = a\<rparr>)"
    using assms(2) a by (simp add: run_cell_def Let_def del: length_Cons)
  with 1 a show ?thesis by blast
qed

theorem os_never_imported_witness:
  "''os'' \<notin> ({} :: string set) \<and> s3_ls world1 json_path = Some (''a.json'' # [])
   \<and> s3_cat world1 ''a.json'' = Some ''A'' \<and> json_loads world1 ''A'' = Inr (doc ''a.jpg'' [bbox4])
   \<and> run_cell {} world1
        = Inr (Some (Raise (NameError ''os'') 70), \<lparr>cat_calls = [''a.json''], ax = Ax1D [blank, blank]\<rparr>)"
proof -
  have h: "''os'' \<notin> ({} :: string set)" "s3_ls world1 json_path = Some (''a.json'' # [])"
    "s3_cat world1 ''a.json'' = Some ''A''" "json_loads world1 ''A'' = Inr (doc ''a.jpg'' [bbox4])"
    by (simp_all add: world1_def world_def)
  have "subplots (fst (grid_shape (length (''a.json'' # [])))) (snd (grid_shape (length (''a.json'' # []))))
          = Inr (Ax1D [blank, blank])"
    by (simp add: first_subplots)
  with os_never_imported [OF h] h show ?thesis by auto
qed

theorem os_never_imported_counterexample:
  "run_cell {} world_bad_json
     = Inr (Some (Raise JSONDecodeError 66), \<lparr>cat_calls = [''a.json''], ax = Ax1D [blank, blank]\<rparr>)
   \<and> Raise JSONDecodeError 66 \<noteq> Raise (NameError ''os'') 70"
  by (simp add: eval_defs world_bad_json_def)

text \<open>
  C5, as the cell has it. The failure of one iteration is the failure of the run: when
  the files before \<open>f\<close> ran to their end and the iteration of \<open>f\<close> fails, the cell ends
  with that failure in the state the iteration left, whatever files follow, and
  \<^verbatim>\<open>plt.show()\<close> is not reached. Where the name \<^verbatim>\<open>os\<close> is bound, an annotation whose
  image is not in the bucket fails at the fetch of line 71 with FileNotFoundError, the
  missing-image error, after the two calls of \<^verbatim>\<open>fs.cat\<close> of its iteration.
\<close>

theorem first_failure_aborts:
  "(\<forall>pre f post a s1 fl s2.
      s3_ls ev json_path = Some (pre @ f # post)
      \<and> subplots (fst (grid_shape (length (pre @ f # post))))
                  (snd (grid_shape (length (pre @ f # post)))) = Inr a
      \<and> run_files ns ev 0 pre \<lparr>cat_calls = [], ax = a\<rparr> = (None, s1)
      \<and> process_file ns ev (length pre) f s1 = (Some fl, s2)
      \<longrightarrow> run_cell ns ev = Inr (Some fl, s2))
   \<and> (\<forall>g raw d name p i s.
      s3_cat ev g = Some raw \<and> json_loads ev raw = Inr d \<and> ''os'' \<in> ns
      \<and> getitem d ''file'' = Inr (PyStr name) \<and> os_path_join img_path (PyStr name) = Inr p
      \<and> s3_cat ev p = None
      \<longrightarrow> process_file ns ev i g s
            = (Some (Raise (FileNotFoundError p) 71), s\<lparr>cat_calls := cat_calls s @ [g, p]\<rparr>)
          \<and> error_kind (Raise (FileNotFoundError p) 71) = Some ImageNotFoundError)"
proof -
  have 1: "run_cell ns ev = Inr (Some fl, s2)"
    if "s3_ls ev json_path = Some (pre @ f # post)"
      "subplots (fst (grid_shape (length (pre @ f # post))))
                (snd (grid_shape (length (pre @ f # post)))) = Inr a"
      "run_files ns ev 0 pre \<lparr>cat_calls = [], ax = a\<rparr> = (None, s1)"
      "process_file ns ev (length pre) f s1 = (Some fl, s2)"
    for pre f post a s1 fl s2
  proof -
    have "run_files ns ev 0 (pre @ f # post) \<lparr>cat_calls = [], ax = a\<rparr> = (Some fl, s2)"
      using run_files_abort [OF that(3), of f fl s2 post] that(4) by simp
    with that(1,2) show ?thesis by (simp add: run_cell_def Let_def)
  qed
  have 2: "process_file ns ev i g s
            = (Some (Raise (FileNotFoundError p) 71), s\<lparr>cat_calls := cat_calls s @ [g, p]\<rparr>)
          \<and> error_kind (Raise (FileNotFoundError p) 71) = Some ImageNotFoundError"
    if "s3_cat ev g = Some raw" "json_loads ev raw = Inr d" "''os'' \<in> ns"
      "getitem d ''file'' = Inr (PyStr name)" "os_path_join img_path (PyStr name) = Inr p"
      "s3_cat ev p = None"
    for g raw d name p i s
    using load_image_fetch [OF that(1-5), of s] that(6)
    by (simp add: process_file_def)
  from 1 2 show ?thesis by blast
qed

theorem first_failure_aborts_witness:
  "s3_ls world_second_missing json_path = Some ([''a.json''] @ ''b.json'' # [''c.json''])
   \<and> (\<exists>a s1 x. subplots (fst (grid_shape (length ([''a.json''] @ ''b.json'' # [''c.json'']))))
                  (snd (grid_shape (length ([''a.json''] @ ''b.json'' # [''c.json''])))) = Inr a
        \<and> run_files {''os''} world_second_missing 0 [''a.json''] \<lparr>cat_calls = [], ax = a\<rparr> = (None, s1)
        \<and> process_file {''os''} world_second_missing (length [''a.json'']) ''b.json'' s1
            = (Some (Raise (FileNotFoundError (img_path @ ''missing.jpg'')) 71),
               \<lparr>cat_calls = [''a.json'', img_path @ ''a.jpg'', ''b.json'', img_path @ ''missing.jpg''],
                ax = Ax2D [[x, blank], [blank, blank]]\<rparr>)
        \<and> run_cell {''os''} world_second_missing
            = Inr (Some (Raise (FileNotFoundError (img_path @ ''missing.jpg'')) 71),
               \<lparr>cat_calls = [''a.json'', img_path @ ''a.jpg'', ''b.json'', img_path @ ''missing.jpg''],
                ax = Ax2D [[x, blank], [blank, blank]]\<rparr>))
   \<and> s3_cat world_second_missing ''b.json'' = Some ''B''
   \<and> json_loads world_second_missing ''B'' = Inr (doc ''missing.jpg'' [])
   \<and> getitem (doc ''missing.jpg'' []) ''file'' = Inr (PyStr ''missing.jpg'')
   \<and> os_path_join img_path (PyStr ''missing.jpg'') = Inr (img_path @ ''missing.jpg'')
   \<and> s3_cat world_second_missing (img_path @ ''missing.jpg'') = None
   \<and> process_file {''os''} world_second_missing 1 ''b.json'' \<lparr>cat_calls = [], ax = Ax1D []\<rparr>
       = (Some (Raise (FileNotFoundError (img_path @ ''missing.jpg'')) 71),
          \<lparr>cat_calls = [''b.json'', img_path @ ''missing.jpg''], ax = Ax1D []\<rparr>)
   \<and> error_kind (Raise (FileNotFoundError (img_path @ ''missing.jpg'')) 71) = Some ImageNotFoundError"
proof -
  let ?w = world_second_missing and ?ns = "{''os''}"
  let ?x = "\<lparr>title = Some ''[img-00] s3://bucket/dataset/train/a.jpg'',
             shown = Some \<lparr>pixels = gray\<lparr>channels := 3, depth := 8\<rparr>, rects = []\<rparr>\<rparr>"
  let ?a = "Ax2D [[blank, blank], [blank, blank]]"
  let ?s1 = "\<lparr>cat_calls = [''a.json'', img_path @ ''a.jpg''], ax = Ax2D [[?x, blank], [blank, blank]]\<rparr>"
  let ?fl = "Raise (FileNotFoundError (img_path @ ''missing.jpg'')) 71"
  let ?s2 = "\<lparr>cat_calls = [''a.json'', img_path @ ''a.jpg'', ''b.json'', img_path @ ''missing.jpg''],
              ax = Ax2D [[?x, blank], [blank, blank]]\<rparr>"
  have ls: "s3_ls ?w json_path = Some ([''a.json''] @ ''b.json'' # [''c.json''])"
    by (simp add: world_second_missing_def world_def)
  have sp: "subplots (fst (grid_shape (length ([''a.json''] @ ''b.json'' # [''c.json'']))))
                  (snd (grid_shape (length ([''a.json''] @ ''b.json'' # [''c.json''])))) = Inr ?a"
    by (simp add: eval_defs)
  have pre: "run_files ?ns ?w 0 [''a.json''] \<lparr>cat_calls = [], ax = ?a\<rparr> = (None, ?s1)"
    by (simp add: eval_defs world_second_missing_def)
  have h: "s3_cat ?w ''b.json'' = Some ''B''" "json_loads ?w ''B'' = Inr (doc ''missing.jpg'' [])"
    "''os'' \<in> ?ns" "getitem (doc ''missing.jpg'' []) ''file'' = Inr (PyStr ''missing.jpg'')"
    "os_path_join img_path (PyStr ''missing.jpg'') = Inr (img_path @ ''missing.jpg'')"
    "s3_cat ?w (img_path @ ''missing.jpg'') = None"
    by (simp_all add: world_second_missing_def world_def doc_def os_path_join_def img_path_def)
  note t = first_failure_aborts [of ?w ?ns]
  have p1: "process_file ?ns ?w (length [''a.json'']) ''b.json'' ?s1 = (Some ?fl, ?s2)"
    using t h by force
  have p2: "process_file ?ns ?w 1 ''b.json'' \<lparr>cat_calls = [], ax = Ax1D []\<rparr>
       = (Some ?fl, \<lparr>cat_calls = [''b.json'', img_path @ ''missing.jpg''], ax = Ax1D []\<rparr>)"
    using t h by force
  have k: "error_kind ?fl = Some ImageNotFoundError"
    using t h by blast
  have r: "run_cell ?ns ?w = Inr (Some ?fl, ?s2)"
    using t ls sp pre p1 by blast
  from ls sp pre p1 r h p2 k show ?thesis by blast
qed

theorem first_failure_aborts_counterexample:
  "run_cell {''os''} world_garbage_box
     = Inr (Some (Raise TypeError 91),
            \<lparr>cat_calls = [''a.json'', ''s3://bucket/dataset/train/a.jpg''],
             ax = Ax2D [[\<lparr>title = Some ''[img-00] s3://bucket/dataset/train/a.jpg'', shown = None\<rparr>,
                         blank], [blank, blank]]\<rparr>)
   \<and> error_kind (Raise TypeError 91) \<noteq> Some ImageDecodeError
   \<and> run_cell {} world_missing
     = Inr (Some (Raise (NameError ''os'') 70), \<lparr>cat_calls = [''a.json''], ax = Ax1D [blank, blank]\<rparr>)
   \<and> error_kind (Raise (NameError ''os'') 70) \<noteq> Some ImageNotFoundError"
  by (simp add: eval_defs world_garbage_box_def world_missing_def)

text \<open>
  C2, as the cell has it. An annotation file on which \<^verbatim>\<open>json.loads\<close> raises fails at
  line 66 with that exception, before any fetch of an image for it: JSONDecodeError for
  text that is not JSON and UnicodeDecodeError for bytes that are not UTF-8 are
  malformed-annotation errors. Where the name \<^verbatim>\<open>os\<close> is bound, a JSON object without the
  key \<^verbatim>\<open>file\<close> fails with KeyError at line 70, again before any fetch of an image. A
  JSON object with \<^verbatim>\<open>file\<close> and without \<^verbatim>\<open>annotations\<close> fails with KeyError only at
  line 76: its image has been fetched by then. Both KeyErrors are malformed-annotation
  errors.
\<close>

theorem annotation_failures:
  assumes "s3_cat ev f = Some raw"
  shows "(\<forall>e. json_loads ev raw = Inl e
          \<longrightarrow> process_file ns ev i f s
                = (Some (Raise e 66), s\<lparr>cat_calls := cat_calls s @ [f]\<rparr>))
     \<and> (\<forall>kvs. json_loads ev raw = Inr (PyDict kvs) \<and> map_of kvs ''file'' = None \<and> ''os'' \<in> ns
          \<longrightarrow> process_file ns ev i f s
                = (Some (Raise (KeyError ''file'') 70), s\<lparr>cat_calls := cat_calls s @ [f]\<rparr>))
     \<and> (\<forall>kvs name p b.
            json_loads ev raw = Inr (PyDict kvs) \<and> map_of kvs ''file'' = Some (PyStr name)
            \<and> map_of kvs ''annotations'' = None \<and> ''os'' \<in> ns
            \<and> os_path_join img_path (PyStr name) = Inr p \<and> s3_cat ev p = Some b \<and> b \<noteq> []
          \<longrightarrow> process_file ns ev i f s
                = (Some (Raise (KeyError ''annotations'') 76), s\<lparr>cat_calls := cat_calls s @ [f, p]\<rparr>))
     \<and> error_kind (Raise JSONDecodeError 66) = Some MalformedAnnotationError
     \<and> error_kind (Raise UnicodeDecodeError 66) = Some MalformedAnnotationError
     \<and> error_kind (Raise (KeyError ''file'') 70) = Some MalformedAnnotationError
     \<and> error_kind (Raise (KeyError ''annotations'') 76) = Some MalformedAnnotationError"
proof -
  have 1: "process_file ns ev i f s
             = (Some (Raise e 66), s\<lparr>cat_calls := cat_calls s @ [f]\<rparr>)"
    if "json_loads ev raw = Inl e" for e
    using load_image_bad_json [OF assms that] by (rule process_file_load_failure)
  have 2: "process_file ns ev i f s
             = (Some (Raise (KeyError ''file'') 70), s\<lparr>cat_calls := cat_calls s @ [f]\<rparr>)"
    if "json_loads ev raw = Inr (PyDict kvs)" "map_of kvs ''file'' = None" "''os'' \<in> ns" for kvs
  proof -
    have "getitem (PyDict kvs) ''file'' = Inl (KeyError ''file'')" using that(2) by simp
    from load_image_no_file [OF assms that(1,3) this] show ?thesis
      by (rule process_file_load_failure)
  qed
  have 3: "process_file ns ev i f s
             = (Some (Raise (KeyError ''annotations'') 76), s\<lparr>cat_calls := cat_calls s @ [f, p]\<rparr>)"
    if "json_loads ev raw = Inr (PyDict kvs)" "map_of kvs ''file'' = Some (PyStr name)"
      "map_of kvs ''annotations'' = None" "''os'' \<in> ns"
      "os_path_join img_path (PyStr name) = Inr p" "s3_cat ev p = Some b" "b \<noteq> []"
    for kvs name p b
  proof -
    have g: "getitem (PyDict kvs) ''file'' = Inr (PyStr name)" using that(2) by simp
    have "\<exists>m. imdecode (decoder ev) b 1 = Inr m" using that(7) by (simp add: imdecode_def)
    then obtain m where m: "imdecode (decoder ev) b 1 = Inr m" by blast
    have "load_image ns ev f s = (Inr (PyDict kvs, p, map_option (\<lambda>h. \<lparr>pixels = h, rects = []\<rparr>) m),
                       s\<lparr>cat_calls := cat_calls s @ [f, p]\<rparr>)"
      using load_image_fetch [OF assms that(1,4) g that(5), of s] that(6) m by simp
    then show ?thesis using that(3)
      by (simp add: process_file_def draw_annotations_def at_line_def)
  qed
  from 1 2 3 show ?thesis by simp
qed

theorem annotation_failures_witness:
  "s3_cat world_bad_json ''a.json'' = Some ''{'' \<and> json_loads world_bad_json ''{'' = Inl JSONDecodeError
   \<and> process_file {} world_bad_json 0 ''a.json'' \<lparr>cat_calls = [], ax = Ax1D []\<rparr>
       = (Some (Raise JSONDecodeError 66), \<lparr>cat_calls = [''a.json''], ax = Ax1D []\<rparr>)
   \<and> s3_cat world_not_utf8 ''a.json'' = Some [CHR 0xFF]
   \<and> json_loads world_not_utf8 [CHR 0xFF] = Inl UnicodeDecodeError
   \<and> process_file {} world_not_utf8 0 ''a.json'' \<lparr>cat_calls = [], ax = Ax1D []\<rparr>
       = (Some (Raise UnicodeDecodeError 66), \<lparr>cat_calls = [''a.json''], ax = Ax1D []\<rparr>)
   \<and> s3_cat world_no_file ''a.json'' = Some ''A''
   \<and> json_loads world_no_file ''A'' = Inr (PyDict [(''annotations'', PyList [])])
   \<and> process_file {''os''} world_no_file 0 ''a.json'' \<lparr>cat_calls = [], ax = Ax1D []\<rparr>
       = (Some (Raise (KeyError ''file'') 70), \<lparr>cat_calls = [''a.json''], ax = Ax1D []\<rparr>)
   \<and> s3_cat world_no_annotations ''a.json'' = Some ''A''
   \<and> json_loads world_no_annotations ''A'' = Inr (PyDict [(''file'', PyStr ''a.jpg'')])
   \<and> s3_cat world_no_annotations (img_path @ ''a.jpg'') = Some ''JA''
   \<and> process_file {''os''} world_no_annotations 0 ''a.json'' \<lparr>cat_calls = [], ax = Ax1D []\<rparr>
       = (Some (Raise (KeyError ''annotations'') 76),
          \<lparr>cat_calls = [''a.json'', img_path @ ''a.jpg''], ax = Ax1D []\<rparr>)"
proof -
  let ?s = "\<lparr>cat_calls = [], ax = Ax1D []\<rparr>"
  have a: "s3_cat world_bad_json ''a.json'' = Some ''{''"
    "json_loads world_bad_json ''{'' = Inl JSONDecodeError"
    by (simp_all add: world_bad_json_def world_def)
  have u: "s3_cat world_not_utf8 ''a.json'' = Some [CHR 0xFF]"
    "json_loads world_not_utf8 [CHR 0xFF] = Inl UnicodeDecodeError"
    by (simp_all add: world_not_utf8_def world_def)
  have b: "s3_cat world_no_file ''a.json'' = Some ''A''"
    "json_loads world_no_file ''A'' = Inr (PyDict [(''annotations'', PyList [])])"
    "map_of [(''annotations'', PyList [])] ''file'' = None" "''os'' \<in> {''os''}"
    by (simp_all add: world_no_file_def world_def)
  have c: "s3_cat world_no_annotations ''a.json'' = Some ''A''"
    "json_loads world_no_annotations ''A'' = Inr (PyDict [(''file'', PyStr ''a.jpg'')])"
    "map_of [(''file'', PyStr ''a.jpg'')] ''file'' = Some (PyStr ''a.jpg'')"
    "map_of [(''file'', PyStr ''a.jpg'')] ''annotations'' = None"
    "os_path_join img_path (PyStr ''a.jpg'') = Inr (img_path @ ''a.jpg'')"
    "s3_cat world_no_annotations (img_path @ ''a.jpg'') = Some ''JA''" "''JA'' \<noteq> []"
    by (simp_all add: world_no_annotations_def world_def os_path_join_def img_path_def)
  have 1: "process_file {} world_bad_json 0 ''a.json'' ?s
       = (Some (Raise JSONDecodeError 66), \<lparr>cat_calls = [''a.json''], ax = Ax1D []\<rparr>)"
    using annotation_failures [OF a(1), of "{}" 0 ?s] a(2) by simp
  have 0: "process_file {} world_not_utf8 0 ''a.json'' ?s
       = (Some (Raise UnicodeDecodeError 66), \<lparr>cat_calls = [''a.json''], ax = Ax1D []\<rparr>)"
    using annotation_failures [OF u(1), of "{}" 0 ?s] u(2) by simp
  have 2: "process_file {''os''} world_no_file 0 ''a.json'' ?s
       = (Some (Raise (KeyError ''file'') 70), \<lparr>cat_calls = [''a.json''], ax = Ax1D []\<rparr>)"
    using annotation_failures [OF b(1), of "{''os''}" 0 ?s] b(2,3,4) by force
  have 3: "process_file {''os''} world_no_annotations 0 ''a.json'' ?s
       = (Some (Raise (KeyError ''annotations'') 76),
          \<lparr>cat_calls = [''a.json'', img_path @ ''a.jpg''], ax = Ax1D []\<rparr>)"
    using annotation_failures [OF c(1), of "{''os''}" 0 ?s] b(4) c(2-7) by force
  from a u b(1,2) c(1,2,6) 0 1 2 3 show ?thesis by blast
qed

theorem annotation_failures_counterexample:
  "run_cell {''os''} world_no_annotations
     = Inr (Some (Raise (KeyError ''annotations'') 76),
            \<lparr>cat_calls = [''a.json'', ''s3://bucket/dataset/train/a.jpg''],
             ax = Ax1D [blank, blank]\<rparr>)
   \<and> run_cell {} world_no_annotations
     = Inr (Some (Raise (NameError ''os'') 70), \<lparr>cat_calls = [''a.json''], ax = Ax1D [blank, blank]\<rparr>)
   \<and> error_kind (Raise (NameError ''os'') 70) \<noteq> Some MalformedAnnotationError"
  by (simp add: eval_defs world_no_annotations_def)

text \<open>
  C3, as the cell has it. Where the name \<^verbatim>\<open>os\<close> is bound and the image has been fetched:
  an image of no bytes makes the decode call of line 73 raise, a decode error; an image of
  bytes that no decoder accepts makes it return \<^verbatim>\<open>None\<close> without raising, and the
  iteration fails all the same, at line 76 or later and so with no decode error. When the
  boxes are drawn without an exception (on \<^verbatim>\<open>None\<close> \<^verbatim>\<open>cv2.rectangle\<close> draws nothing and
  raises nothing, so a box with five integers that fit passes), the iteration fails at
  line 89 with the exception of \<^verbatim>\<open>ax[row][col]\<close> when the cell of the file cannot be
  reached, and otherwise at the \<^verbatim>\<open>imshow\<close> of line 91 with TypeError, after the title of
  the cell has been set.
\<close>

theorem undecodable_image:
  assumes "s3_cat ev f = Some raw" and "json_loads ev raw = Inr d" and "''os'' \<in> ns"
    and "getitem d ''file'' = Inr fv" and "os_path_join img_path fv = Inr p"
    and "s3_cat ev p = Some b" and "decoder ev b = None"
  shows "(b = [] \<longrightarrow> process_file ns ev i f s
             = (Some (Raise CvError 73), s\<lparr>cat_calls := cat_calls s @ [f, p]\<rparr>)
           \<and> error_kind (Raise CvError 73) = Some ImageDecodeError)
     \<and> (b \<noteq> [] \<longrightarrow>
           imdecode (decoder ev) b 1 = Inr None
         \<and> load_image ns ev f s = (Inr (d, p, None), s\<lparr>cat_calls := cat_calls s @ [f, p]\<rparr>)
         \<and> (\<exists>e l s'. process_file ns ev i f s = (Some (Raise e l), s') \<and> 76 \<le> l
                \<and> error_kind (Raise e l) \<noteq> Some ImageDecodeError)
         \<and> (\<forall>bbox x y w h c.
               getitem d ''annotations'' = Inr (PyList [bbox])
               \<and> getitem bbox ''left'' = Inr (PyInt x) \<and> getitem bbox ''top'' = Inr (PyInt y)
               \<and> getitem bbox ''width'' = Inr (PyInt w) \<and> getitem bbox ''height'' = Inr (PyInt h)
               \<and> getitem bbox ''class_id'' = Inr (PyInt c)
               \<and> fits_c_int x \<and> fits_c_int y \<and> fits_c_int (x + w) \<and> fits_c_int (y + h)
               \<longrightarrow> draw_annotations d None = Inr None)
         \<and> (\<forall>e. draw_annotations d None = Inr None
               \<and> ax_cell (ax s) (fst (cell_of i)) (snd (cell_of i)) = Inl e
               \<longrightarrow> process_file ns ev i f s
                     = (Some (Raise e 89), s\<lparr>cat_calls := cat_calls s @ [f, p]\<rparr>))
         \<and> (\<forall>x. draw_annotations d None = Inr None
               \<and> ax_cell (ax s) (fst (cell_of i)) (snd (cell_of i)) = Inr x
               \<longrightarrow> process_file ns ev i f s
                     = (Some (Raise TypeError 91),
                        s\<lparr>cat_calls := cat_calls s @ [f, p],
                          ax := ax_put (ax s) (fst (cell_of i)) (snd (cell_of i))
                                  (x\<lparr>title := Some (caption i p)\<rparr>)\<rparr>)))"
proof -
  let ?s2 = "s\<lparr>cat_calls := cat_calls s @ [f, p]\<rparr>"
  note l = load_image_fetch [OF assms(1-5), of s]
  have 1: "process_file ns ev i f s = (Some (Raise CvError 73), ?s2)" if "b = []"
    using l assms(6) that by (simp add: imdecode_def process_file_def)
  have d: "imdecode (decoder ev) b 1 = Inr None" if "b \<noteq> []"
    using that assms(7) by (simp add: imdecode_def)
  have 2: "load_image ns ev f s = (Inr (d, p, None), ?s2)" if "b \<noteq> []"
    using l assms(6) d [OF that] by simp
  have 3: "\<exists>e l s'. process_file ns ev i f s = (Some (Raise e l), s') \<and> 76 \<le> l
                \<and> error_kind (Raise e l) \<noteq> Some ImageDecodeError" if "b \<noteq> []"
  proof -
    from process_file_no_image [OF 2 [OF that], of i] obtain e l s' where
      p: "process_file ns ev i f s = (Some (Raise e l), s')" and "76 \<le> l" by blast
    then have "error_kind (Raise e l) \<noteq> Some ImageDecodeError"
      using error_kind_decode [of e l] by auto
    with p \<open>76 \<le> l\<close> show ?thesis by blast
  qed
  have 4: "draw_annotations d None = Inr None"
    if "getitem d ''annotations'' = Inr (PyList [bbox])"
      "getitem bbox ''left'' = Inr (PyInt x)" "getitem bbox ''top'' = Inr (PyInt y)"
      "getitem bbox ''width'' = Inr (PyInt w)" "getitem bbox ''height'' = Inr (PyInt h)"
      "getitem bbox ''class_id'' = Inr (PyInt c)"
      "fits_c_int x" "fits_c_int y" "fits_c_int (x + w)" "fits_c_int (y + h)"
    for bbox x y w h c
  proof -
    have "draw_bbox None bbox = Inr None"
      using draw_bbox_ok [OF that(2,3) int_field_PyInt [OF that(4)] int_field_PyInt [OF that(5)]
          int_field_PyInt [OF that(6)] that(7-10), of None]
      by simp
    then show ?thesis
      using that(1) by (simp add: draw_annotations_def at_line_def)
  qed
  have 5: "process_file ns ev i f s = (Some (Raise e 89), ?s2)"
    if "b \<noteq> []" "draw_annotations d None = Inr None"
      "ax_cell (ax s) (fst (cell_of i)) (snd (cell_of i)) = Inl e"
    for e
  proof -
    have "add_to_plot (ax ?s2) i p None = (Some (Raise e 89), ax ?s2)"
      using that(3) by (simp add: add_to_plot_def Let_def)
    then show ?thesis using 2 [OF that(1)] that(2) by (simp add: process_file_def Let_def)
  qed
  have 6: "process_file ns ev i f s
                     = (Some (Raise TypeError 91),
                        s\<lparr>cat_calls := cat_calls s @ [f, p],
                          ax := ax_put (ax s) (fst (cell_of i)) (snd (cell_of i))
                                  (x\<lparr>title := Some (caption i p)\<rparr>)\<rparr>)"
    if "b \<noteq> []" "draw_annotations d None = Inr None"
      "ax_cell (ax s) (fst (cell_of i)) (snd (cell_of i)) = Inr x"
    for x
  proof -
    have "add_to_plot (ax ?s2) i p None
        = (Some (Raise TypeError 91),
           ax_put (ax s) (fst (cell_of i)) (snd (cell_of i)) (x\<lparr>title := Some (caption i p)\<rparr>))"
      using that(3) by (simp add: add_to_plot_def Let_def)
    then show ?thesis using 2 [OF that(1)] that(2) by (simp add: process_file_def Let_def)
  qed
  have k: "error_kind (Raise CvError 73) = Some ImageDecodeError" by simp
  from 1 d 2 3 4 5 6 k show ?thesis by blast
qed

theorem undecodable_image_witness:
  "s3_cat world_empty_image (img_path @ ''a.jpg'') = Some []
   \<and> process_file {''os''} world_empty_image 0 ''a.json'' \<lparr>cat_calls = [], ax = Ax1D []\<rparr>
       = (Some (Raise CvError 73), \<lparr>cat_calls = [''a.json'', img_path @ ''a.jpg''], ax = Ax1D []\<rparr>)
   \<and> s3_cat world_garbage (img_path @ ''a.jpg'') = Some ''xx'' \<and> ''xx'' \<noteq> []
   \<and> decoder world_garbage ''xx'' = None
   \<and> imdecode (decoder world_garbage) ''xx'' 1 = Inr None
   \<and> getitem (doc ''a.jpg'' [bbox4]) ''annotations'' = Inr (PyList [bbox4])
   \<and> draw_annotations (doc ''a.jpg'' [bbox4]) None = Inr None
   \<and> ax_cell (Ax1D [blank, blank]) (fst (cell_of 0)) (snd (cell_of 0)) = Inl TypeError
   \<and> process_file {''os''} world_garbage 0 ''a.json'' \<lparr>cat_calls = [], ax = Ax1D [blank, blank]\<rparr>
       = (Some (Raise TypeError 89),
          \<lparr>cat_calls = [''a.json'', img_path @ ''a.jpg''], ax = Ax1D [blank, blank]\<rparr>)
   \<and> draw_annotations (doc ''a.jpg'' []) None = Inr None
   \<and> ax_cell (Ax2D [[blank, blank], [blank, blank]]) (fst (cell_of 0)) (snd (cell_of 0)) = Inr blank
   \<and> process_file {''os''} world_garbage_no_boxes 0 ''a.json''
         \<lparr>cat_calls = [], ax = Ax2D [[blank, blank], [blank, blank]]\<rparr>
       = (Some (Raise TypeError 91),
          \<lparr>cat_calls = [''a.json'', img_path @ ''a.jpg''],
           ax = Ax2D [[blank\<lparr>title := Some (caption 0 (img_path @ ''a.jpg''))\<rparr>, blank],
                      [blank, blank]]\<rparr>)"
proof -
  let ?s = "\<lparr>cat_calls = [], ax = Ax1D []\<rparr>"
  let ?o = "\<lparr>cat_calls = [], ax = Ax1D [blank, blank]\<rparr>"
  let ?g = "\<lparr>cat_calls = [], ax = Ax2D [[blank, blank], [blank, blank]]\<rparr>"
  have e: "s3_cat world_empty_image ''a.json'' = Some ''A''"
    "json_loads world_empty_image ''A'' = Inr (doc ''a.jpg'' [bbox4])" "''os'' \<in> {''os''}"
    "getitem (doc ''a.jpg'' [bbox4]) ''file'' = Inr (PyStr ''a.jpg'')"
    "os_path_join img_path (PyStr ''a.jpg'') = Inr (img_path @ ''a.jpg'')"
    "s3_cat world_empty_image (img_path @ ''a.jpg'') = Some []"
    "decoder world_empty_image [] = None"
    by (simp_all add: world_empty_image_def world_def doc_def os_path_join_def img_path_def)
  have g: "s3_cat world_garbage ''a.json'' = Some ''A''"
    "json_loads world_garbage ''A'' = Inr (doc ''a.jpg'' [bbox4])" "''os'' \<in> {''os''}"
    "getitem (doc ''a.jpg'' [bbox4]) ''file'' = Inr (PyStr ''a.jpg'')"
    "os_path_join img_path (PyStr ''a.jpg'') = Inr (img_path @ ''a.jpg'')"
    "s3_cat world_garbage (img_path @ ''a.jpg'') = Some ''xx''"
    "decoder world_garbage ''xx'' = None"
    by (simp_all add: world_garbage_def world_def doc_def os_path_join_def img_path_def)
  have n: "s3_cat world_garbage_no_boxes ''a.json'' = Some ''A''"
    "json_loads world_garbage_no_boxes ''A'' = Inr (doc ''a.jpg'' [])" "''os'' \<in> {''os''}"
    "getitem (doc ''a.jpg'' []) ''file'' = Inr (PyStr ''a.jpg'')"
    "os_path_join img_path (PyStr ''a.jpg'') = Inr (img_path @ ''a.jpg'')"
    "s3_cat world_garbage_no_boxes (img_path @ ''a.jpg'') = Some ''xx''"
    "decoder world_garbage_no_boxes ''xx'' = None"
    by (simp_all add: world_garbage_no_boxes_def world_def doc_def os_path_join_def img_path_def)
  have b: "getitem (doc ''a.jpg'' [bbox4]) ''annotations'' = Inr (PyList [bbox4])"
    "getitem bbox4 ''left'' = Inr (PyInt 300)" "getitem bbox4 ''top'' = Inr (PyInt 38)"
    "getitem bbox4 ''width'' = Inr (PyInt 100)" "getitem bbox4 ''height'' = Inr (PyInt 52)"
    "getitem bbox4 ''class_id'' = Inr (PyInt 4)"
    "fits_c_int 300" "fits_c_int 38" "fits_c_int (300 + 100)" "fits_c_int (38 + 52)"
    by (simp_all add: doc_def bbox4_def fits_c_int_def)
  have c: "draw_annotations (doc ''a.jpg'' []) None = Inr None"
    "ax_cell (ax ?g) (fst (cell_of 0)) (snd (cell_of 0)) = Inr blank"
    "ax_cell (ax ?o) (fst (cell_of 0)) (snd (cell_of 0)) = Inl TypeError"
    by (simp_all add: doc_def cell_of_def ax_cell_def draw_annotations_def at_line_def)
  have 1: "process_file {''os''} world_empty_image 0 ''a.json'' ?s
       = (Some (Raise CvError 73), \<lparr>cat_calls = [''a.json'', img_path @ ''a.jpg''], ax = Ax1D []\<rparr>)"
    using undecodable_image [OF e, of 0 ?s] by simp
  have ne: "''xx'' \<noteq> []" by simp
  note u = undecodable_image [OF g, of 0 ?o]
  have 2: "imdecode (decoder world_garbage) ''xx'' 1 = Inr None" using u ne by blast
  have 3: "draw_annotations (doc ''a.jpg'' [bbox4]) None = Inr None"
    using u ne b by blast
  have 4: "process_file {''os''} world_garbage 0 ''a.json'' ?o
       = (Some (Raise TypeError 89), ?o\<lparr>cat_calls := cat_calls ?o @ [''a.json'', img_path @ ''a.jpg'']\<rparr>)"
    using u ne 3 c(3) by blast
  have 5: "process_file {''os''} world_garbage_no_boxes 0 ''a.json'' ?g
       = (Some (Raise TypeError 91),
          ?g\<lparr>cat_calls := cat_calls ?g @ [''a.json'', img_path @ ''a.jpg''],
             ax := ax_put (ax ?g) (fst (cell_of 0)) (snd (cell_of 0))
                     (blank\<lparr>title := Some (caption 0 (img_path @ ''a.jpg''))\<rparr>)\<rparr>)"
    using undecodable_image [OF n, of 0 ?g] ne c(1,2) by blast
  have 6: "ax_put (ax ?g) (fst (cell_of 0)) (snd (cell_of 0))
                     (blank\<lparr>title := Some (caption 0 (img_path @ ''a.jpg''))\<rparr>)
           = Ax2D [[blank\<lparr>title := Some (caption 0 (img_path @ ''a.jpg''))\<rparr>, blank], [blank, blank]]"
    by (simp add: ax_put_def cell_of_def)
  from e(6) g(6,7) ne b(1) c 1 2 3 4 5 6 show ?thesis by simp
qed

theorem undecodable_image_counterexample:
  "imdecode (decoder world_garbage_no_boxes) ''xx'' 1 = Inr None
   \<and> run_cell {''os''} world_garbage_no_boxes
       = Inr (Some (Raise TypeError 91),
              \<lparr>cat_calls = [''a.json'', ''s3://bucket/dataset/train/a.jpg''],
               ax = Ax2D [[\<lparr>title = Some ''[img-00] s3://bucket/dataset/train/a.jpg'', shown = None\<rparr>,
                           blank], [blank, blank]]\<rparr>)
   \<and> error_kind (Raise TypeError 91) \<noteq> Some ImageDecodeError"
  by (simp add: eval_defs world_garbage_no_boxes_def)

end
